theory Spec2Isabelle
  imports Complex_Main
begin

unbundle bit_operations_syntax

section \<open>Python values: errors, list indexing, number formats\<close>

text \<open>
  The three stages are Python classes. Every exception the source can raise is a value of
  \<open>error\<close>, and a function that can raise returns \<open>error + 'a\<close> with \<open>Inl\<close> for the
  exception. Python integers are unbounded, so they are \<open>int\<close>.
\<close>

datatype error =
    IndexError
  | KeyError
  | ValueError
  | TypeError
  | ZeroDivisionError
  | RuntimeError string
  | ParseError

text \<open>
  \<open>ebind m f\<close> runs \<open>f\<close> on the value of \<open>m\<close>, unless \<open>m\<close> raised: the sequencing of
  two Python statements of which the first can raise.
\<close>

definition ebind :: "error + 'a \<Rightarrow> ('a \<Rightarrow> error + 'b) \<Rightarrow> error + 'b" where
  "ebind m f = (case m of Inl e \<Rightarrow> Inl e | Inr x \<Rightarrow> f x)"

text \<open>
  \<open>xs[i]\<close> in Python: an index from \<open>-len\<close> up to \<open>len - 1\<close> is accepted, a negative
  one counts from the end, anything else raises IndexError.
\<close>

definition py_index :: "nat \<Rightarrow> int \<Rightarrow> nat option" where
  "py_index n i =
     (if 0 \<le> i \<and> i < int n then Some (nat i)
      else if - int n \<le> i \<and> i < 0 then Some (nat (i + int n))
      else None)"

definition py_get :: "'a list \<Rightarrow> int \<Rightarrow> error + 'a" where
  "py_get xs i = (case py_index (length xs) i of None \<Rightarrow> Inl IndexError | Some k \<Rightarrow> Inr (xs ! k))"

definition py_set :: "'a list \<Rightarrow> int \<Rightarrow> 'a \<Rightarrow> error + 'a list" where
  "py_set xs i v = (case py_index (length xs) i of None \<Rightarrow> Inl IndexError | Some k \<Rightarrow> Inr (xs[k := v]))"

text \<open>
  \<open>int(s, 2)\<close> on a string of binary digits. The source only ever passes slices of
  instruction words; a string that is empty or holds another character raises ValueError
  (Python would also accept a sign, an underscore or a \<open>0b\<close> prefix, which no
  instruction word holds).
\<close>

definition bit_char :: "char \<Rightarrow> bool" where
  "bit_char c \<longleftrightarrow> c = CHR ''0'' \<or> c = CHR ''1''"

definition int2 :: "string \<Rightarrow> error + int" where
  "int2 s =
     (if s \<noteq> [] \<and> list_all bit_char s
      then Inr (foldl (\<lambda>acc c. 2 * acc + (if c = CHR ''1'' then 1 else 0)) 0 s)
      else Inl ValueError)"

text \<open>The binary digits of a natural number, most significant first (\<open>f'{n:b}'\<close>).\<close>

fun bin_digits :: "nat \<Rightarrow> string" where
  "bin_digits n =
     (if n < 2 then [if n = 0 then CHR ''0'' else CHR ''1'']
      else bin_digits (n div 2) @ [if n mod 2 = 0 then CHR ''0'' else CHR ''1''])"

declare bin_digits.simps [simp del]

definition zfill :: "nat \<Rightarrow> string \<Rightarrow> string" where
  "zfill w s = replicate (w - length s) CHR ''0'' @ s"

text \<open>\<open>f'{v:05b}'\<close> and \<open>f'{v:015b}'\<close>: a sign takes one column of the width.\<close>

definition fmt_bin :: "nat \<Rightarrow> int \<Rightarrow> string" where
  "fmt_bin w v =
     (if v < 0 then CHR ''-'' # zfill (w - 1) (bin_digits (nat (- v)))
      else zfill w (bin_digits (nat v)))"

section \<open>The instruction-set simulator (computer.py)\<close>

record computer =
  register :: "int list"
  counter :: int
  ram :: "int list"
  iters :: int
  finished :: bool
  program :: "string list"

definition RAM_REGISTER :: int where "RAM_REGISTER = 0"
definition RAM_SIZE :: nat where "RAM_SIZE = 24576"
definition MAX_ITERS :: int where "MAX_ITERS = 16384"
definition STATIC :: nat where "STATIC = 16"
definition SCREEN :: nat where "SCREEN = 16384"
definition KEYBOARD :: nat where "KEYBOARD = 20480"
definition DISPLAY :: nat where "DISPLAY = 20481"
definition INPUT :: nat where "INPUT = 20486"
definition OUTPUT :: nat where "OUTPUT = 20487"

text \<open>\<open>reset\<close> and \<open>load\<close>: a fresh machine holding the given program.\<close>

definition load :: "string list \<Rightarrow> computer" where
  "load prog =
     \<lparr> register = replicate 4 0, counter = 0, ram = replicate RAM_SIZE 0,
       iters = 0, finished = False, program = prog \<rparr>"

text \<open>
  \<open>__decode\<close>: the five fields of an instruction word, read with \<open>int(_, 2)\<close> from the
  slices \<open>[0]\<close>, \<open>[1:5]\<close>, \<open>[5:8]\<close>, \<open>[8:11]\<close> and \<open>[11:]\<close>.
\<close>

definition decode :: "string \<Rightarrow> error + (int \<times> int \<times> int \<times> int \<times> int)" where
  "decode instruction =
     ebind (py_get instruction 0) (\<lambda>c.
     ebind (int2 [c]) (\<lambda>ty.
     ebind (int2 (take 4 (drop 1 instruction))) (\<lambda>mode.
     ebind (int2 (take 3 (drop 5 instruction))) (\<lambda>arg1.
     ebind (int2 (take 3 (drop 8 instruction))) (\<lambda>arg2.
     ebind (int2 (drop 11 instruction)) (\<lambda>res.
     Inr (ty, mode, arg1, arg2, res)))))))"

text \<open>\<open>__immediate\<close>: register A receives the whole word read as a binary number.\<close>

definition immediate :: "computer \<Rightarrow> string \<Rightarrow> error + computer" where
  "immediate s instruction =
     ebind (int2 instruction) (\<lambda>v.
     ebind (py_set (register s) 0 v) (\<lambda>regs.
     Inr (s\<lparr>register := regs\<rparr>)))"

text \<open>
  \<open>__getval\<close>: selectors 4 and 5 are the constants 0 and 1, selector 7 is the memory cell
  addressed by register A, every other selector indexes the register list.
\<close>

definition getval :: "computer \<Rightarrow> int \<Rightarrow> error + int" where
  "getval s src =
     (if src = 4 then Inr 0
      else if src = 5 then Inr 1
      else if src = 7 then
        ebind (py_get (register s) RAM_REGISTER) (\<lambda>a. py_get (ram s) a)
      else py_get (register s) src)"

text \<open>
  \<open>__setval\<close>: the mask is formatted as five binary digits; the last digit selects the
  memory cell addressed by register A and is served first, then the other digits are
  enumerated from the left and digit \<open>i\<close> selects \<open>register[i]\<close>.
\<close>

fun set_registers :: "int list \<Rightarrow> nat \<Rightarrow> string \<Rightarrow> int \<Rightarrow> error + int list" where
  "set_registers regs i [] val = Inr regs"
| "set_registers regs i (d # ds) val =
     (if d = CHR ''1'' then
        ebind (py_set regs (int i) val) (\<lambda>regs'. set_registers regs' (Suc i) ds val)
      else set_registers regs (Suc i) ds val)"

definition setval :: "computer \<Rightarrow> int \<Rightarrow> int \<Rightarrow> error + computer" where
  "setval s dst val =
     (let bdst = fmt_bin 5 dst in
      ebind (if last bdst = CHR ''1'' then
               ebind (py_get (register s) RAM_REGISTER) (\<lambda>a.
               ebind (py_set (ram s) a val) (\<lambda>cells.
               Inr (s\<lparr>ram := cells\<rparr>)))
             else Inr s) (\<lambda>s1.
      ebind (set_registers (register s1) 0 (butlast bdst) val) (\<lambda>regs.
      Inr (s1\<lparr>register := regs\<rparr>))))"

text \<open>
  The operations. Each returns the new state and the jump target, \<open>-1\<close> for "no jump".
  A unary operation reads operand A only; a binary one reads operand A, then operand B.
\<close>

definition unary_op :: "(int \<Rightarrow> int) \<Rightarrow> computer \<Rightarrow> int \<Rightarrow> int \<Rightarrow> error + computer \<times> int" where
  "unary_op f s arg1 res =
     ebind (getval s arg1) (\<lambda>a.
     ebind (setval s res (f a)) (\<lambda>s'.
     Inr (s', - 1)))"

definition binary_op :: "(int \<Rightarrow> int \<Rightarrow> error + int) \<Rightarrow> computer \<Rightarrow> int \<Rightarrow> int \<Rightarrow> int
    \<Rightarrow> error + computer \<times> int" where
  "binary_op f s arg1 arg2 res =
     ebind (getval s arg1) (\<lambda>a.
     ebind (getval s arg2) (\<lambda>b.
     ebind (f a b) (\<lambda>v.
     ebind (setval s res v) (\<lambda>s'.
     Inr (s', - 1)))))"

definition op_copy :: "computer \<Rightarrow> int \<Rightarrow> int \<Rightarrow> int \<Rightarrow> error + computer \<times> int" where
  "op_copy s arg1 arg2 res = unary_op (\<lambda>a. a) s arg1 res"

definition op_not :: "computer \<Rightarrow> int \<Rightarrow> int \<Rightarrow> int \<Rightarrow> error + computer \<times> int" where
  "op_not s arg1 arg2 res = unary_op (\<lambda>a. NOT a) s arg1 res"

definition op_and :: "computer \<Rightarrow> int \<Rightarrow> int \<Rightarrow> int \<Rightarrow> error + computer \<times> int" where
  "op_and s arg1 arg2 res = binary_op (\<lambda>a b. Inr (a AND b)) s arg1 arg2 res"

definition op_or :: "computer \<Rightarrow> int \<Rightarrow> int \<Rightarrow> int \<Rightarrow> error + computer \<times> int" where
  "op_or s arg1 arg2 res = binary_op (\<lambda>a b. Inr (a OR b)) s arg1 arg2 res"

definition op_xor :: "computer \<Rightarrow> int \<Rightarrow> int \<Rightarrow> int \<Rightarrow> error + computer \<times> int" where
  "op_xor s arg1 arg2 res = binary_op (\<lambda>a b. Inr (a XOR b)) s arg1 arg2 res"

definition op_neg :: "computer \<Rightarrow> int \<Rightarrow> int \<Rightarrow> int \<Rightarrow> error + computer \<times> int" where
  "op_neg s arg1 arg2 res = unary_op (\<lambda>a. - a) s arg1 res"

definition op_add :: "computer \<Rightarrow> int \<Rightarrow> int \<Rightarrow> int \<Rightarrow> error + computer \<times> int" where
  "op_add s arg1 arg2 res = binary_op (\<lambda>a b. Inr (a + b)) s arg1 arg2 res"

definition op_sub :: "computer \<Rightarrow> int \<Rightarrow> int \<Rightarrow> int \<Rightarrow> error + computer \<times> int" where
  "op_sub s arg1 arg2 res = binary_op (\<lambda>a b. Inr (a - b)) s arg1 arg2 res"

definition op_mul :: "computer \<Rightarrow> int \<Rightarrow> int \<Rightarrow> int \<Rightarrow> error + computer \<times> int" where
  "op_mul s arg1 arg2 res = binary_op (\<lambda>a b. Inr (a * b)) s arg1 arg2 res"

text \<open>
  Python's \<open>//\<close> and \<open>%\<close> on integers raise ZeroDivisionError for a zero divisor and
  otherwise are \<open>div\<close> and \<open>mod\<close> of \<open>int\<close>.
\<close>

definition py_floordiv :: "int \<Rightarrow> int \<Rightarrow> error + int" where
  "py_floordiv a b = (if b = 0 then Inl ZeroDivisionError else Inr (a div b))"

definition py_mod :: "int \<Rightarrow> int \<Rightarrow> error + int" where
  "py_mod a b = (if b = 0 then Inl ZeroDivisionError else Inr (a mod b))"

definition op_div :: "computer \<Rightarrow> int \<Rightarrow> int \<Rightarrow> int \<Rightarrow> error + computer \<times> int" where
  "op_div s arg1 arg2 res = binary_op py_floordiv s arg1 arg2 res"

definition op_rem :: "computer \<Rightarrow> int \<Rightarrow> int \<Rightarrow> int \<Rightarrow> error + computer \<times> int" where
  "op_rem s arg1 arg2 res = binary_op py_mod s arg1 arg2 res"

text \<open>\<open>__cmp\<close>: the comparison table; a code outside it raises RuntimeError.\<close>

definition cmp :: "int \<Rightarrow> int \<Rightarrow> int \<Rightarrow> error + bool" where
  "cmp a b opc =
     (if opc = 0 then Inr False
      else if opc = 4 then Inr True
      else if opc = 1 then Inr (a = b)
      else if opc = 2 then Inr (a < b)
      else if opc = 3 then Inr (a \<le> b)
      else if opc = 5 then Inr (a \<noteq> b)
      else if opc = 6 then Inr (a \<ge> b)
      else if opc = 7 then Inr (a > b)
      else Inl (RuntimeError ''not a valid comparison''))"

text \<open>\<open>__jmp\<close>: when the comparison holds, the target is \<open>__getval(0)\<close>.\<close>

definition op_jmp :: "computer \<Rightarrow> int \<Rightarrow> int \<Rightarrow> int \<Rightarrow> error + computer \<times> int" where
  "op_jmp s arg1 arg2 res =
     ebind (getval s arg1) (\<lambda>a.
     ebind (getval s arg2) (\<lambda>b.
     ebind (cmp a b res) (\<lambda>holds.
     if holds then ebind (getval s 0) (\<lambda>target. Inr (s, target))
     else Inr (s, - 1))))"

text \<open>\<open>__MODES\<close>: the opcode table; an opcode outside it raises KeyError.\<close>

definition MODES :: "int \<Rightarrow> (computer \<Rightarrow> int \<Rightarrow> int \<Rightarrow> int \<Rightarrow> error + computer \<times> int) option" where
  "MODES mode =
     (if mode = 1 then Some op_not
      else if mode = 2 then Some op_and
      else if mode = 3 then Some op_or
      else if mode = 4 then Some op_xor
      else if mode = 8 then Some op_copy
      else if mode = 9 then Some op_neg
      else if mode = 10 then Some op_add
      else if mode = 11 then Some op_sub
      else if mode = 12 then Some op_mul
      else if mode = 13 then Some op_div
      else if mode = 14 then Some op_rem
      else if mode = 15 then Some op_jmp
      else None)"

text \<open>
  \<open>execute\<close> is the part of \<open>step\<close> after the three halting tests: count the
  instruction, fetch, decode, run it (\<open>dispatch\<close>: an Immediate, or the opcode's entry
  of \<open>__MODES\<close>) and move the program counter (\<open>advance\<close>).
\<close>

definition dispatch :: "computer \<Rightarrow> string \<Rightarrow> int \<Rightarrow> int \<Rightarrow> int \<Rightarrow> int \<Rightarrow> int
    \<Rightarrow> error + computer \<times> int" where
  "dispatch s instruction ty mode arg1 arg2 res =
     (if ty = 0 then ebind (immediate s instruction) (\<lambda>s2. Inr (s2, - 1))
      else (case MODES mode of None \<Rightarrow> Inl KeyError | Some f \<Rightarrow> f s arg1 arg2 res))"

definition advance :: "computer \<Rightarrow> int \<Rightarrow> computer" where
  "advance s jump = (if jump < 0 then s\<lparr>counter := counter s + 1\<rparr> else s\<lparr>counter := jump\<rparr>)"

definition execute :: "computer \<Rightarrow> error + bool \<times> computer" where
  "execute s =
     (let s1 = s\<lparr>iters := iters s + 1\<rparr> in
      ebind (py_get (program s1) (counter s1)) (\<lambda>instruction.
      ebind (decode instruction) (\<lambda>(ty, mode, arg1, arg2, res).
      ebind (dispatch s1 instruction ty mode arg1 arg2 res) (\<lambda>(s2, jump).
      Inr (True, advance s2 jump)))))"

definition step :: "computer \<Rightarrow> error + bool \<times> computer" where
  "step s =
     (if finished s then Inr (False, s)
      else if counter s \<ge> int (length (program s)) then Inr (False, s\<lparr>finished := True\<rparr>)
      else if iters s \<ge> MAX_ITERS then Inr (False, s\<lparr>finished := True\<rparr>)
      else execute s)"


text \<open>
  \<open>run\<close>: step until the machine is finished; an exception of \<open>step\<close> ends the loop.
  Every step that does not finish the machine counts one instruction of at most
  \<open>MAX_ITERS\<close>, which is why the loop is a total function.
\<close>

lemma ebind_Inl [simp]: "ebind (Inl e) f = Inl e"
  by (simp add: ebind_def)

lemma ebind_Inr [simp]: "ebind (Inr x) f = f x"
  by (simp add: ebind_def)

lemma ebind_cong [cong]: "m = m' \<Longrightarrow> ebind m f = ebind m' f"
  by simp

lemma ebind_eq_Inr: "ebind m f = Inr y \<longleftrightarrow> (\<exists>x. m = Inr x \<and> f x = Inr y)"
  by (cases m) simp_all

lemma set_registers_length:
  "set_registers regs i ds v = Inr regs' \<Longrightarrow> length regs' = length regs"
proof (induction ds arbitrary: regs i)
  case Nil
  then show ?case by simp
next
  case (Cons d ds)
  then show ?case
    by (auto simp: ebind_eq_Inr py_set_def split: if_splits option.splits)
qed

lemma setval_frame:
  assumes "setval s dst v = Inr s'"
  shows "iters s' = iters s \<and> finished s' = finished s \<and> program s' = program s
    \<and> counter s' = counter s \<and> length (ram s') = length (ram s)
    \<and> length (register s') = length (register s)"
  using assms
  by (auto simp: setval_def Let_def ebind_eq_Inr py_set_def
      split: if_splits option.splits dest: set_registers_length)

lemma unary_op_frame:
  assumes "unary_op f s arg1 res = Inr (s', j)"
  shows "iters s' = iters s \<and> finished s' = finished s \<and> program s' = program s"
  using assms by (auto simp: unary_op_def ebind_eq_Inr dest: setval_frame)

lemma binary_op_frame:
  assumes "binary_op f s arg1 arg2 res = Inr (s', j)"
  shows "iters s' = iters s \<and> finished s' = finished s \<and> program s' = program s"
  using assms by (auto simp: binary_op_def ebind_eq_Inr dest: setval_frame)

lemma op_jmp_frame:
  assumes "op_jmp s arg1 arg2 res = Inr (s', j)"
  shows "s' = s"
  using assms by (auto simp: op_jmp_def ebind_eq_Inr split: if_splits)

lemma MODES_frame:
  assumes "MODES mode = Some f" and "f s arg1 arg2 res = Inr (s', j)"
  shows "iters s' = iters s \<and> finished s' = finished s \<and> program s' = program s"
proof -
  have "f \<in> {op_not, op_and, op_or, op_xor, op_copy, op_neg, op_add, op_sub, op_mul,
      op_div, op_rem, op_jmp}"
    using assms(1) by (auto simp: MODES_def split: if_splits)
  then show ?thesis
    using assms(2)
    by (auto simp: op_not_def op_and_def op_or_def op_xor_def op_copy_def op_neg_def
        op_add_def op_sub_def op_mul_def op_div_def op_rem_def
        dest: unary_op_frame binary_op_frame op_jmp_frame)
qed

lemma immediate_frame:
  assumes "immediate s w = Inr s'"
  shows "iters s' = iters s \<and> finished s' = finished s \<and> program s' = program s"
  using assms by (auto simp: immediate_def ebind_eq_Inr)

lemma dispatch_frame:
  assumes "dispatch s w ty mode arg1 arg2 res = Inr (s', j)"
  shows "iters s' = iters s \<and> finished s' = finished s \<and> program s' = program s"
proof (cases "ty = 0")
  case True
  with assms show ?thesis
    by (auto simp: dispatch_def ebind_eq_Inr dest: immediate_frame)
next
  case False
  with assms obtain f where "MODES mode = Some f" and "f s arg1 arg2 res = Inr (s', j)"
    by (auto simp: dispatch_def split: option.splits)
  then show ?thesis by (rule MODES_frame)
qed

lemma execute_frame:
  assumes "execute s = Inr (b, s')"
  shows "iters s' = iters s + 1 \<and> finished s' = finished s \<and> program s' = program s \<and> b"
  using assms
  by (auto simp: execute_def Let_def ebind_eq_Inr advance_def split: prod.splits if_splits
      dest!: dispatch_frame)

lemma step_progress:
  assumes "step s = Inr (b, s')" and "\<not> finished s"
  shows "finished s' \<or> (iters s' = iters s + 1 \<and> iters s < MAX_ITERS)"
  using assms by (auto simp: step_def split: if_splits dest: execute_frame)

function run :: "computer \<Rightarrow> error + computer" where
  "run s =
     (if finished s then Inr s
      else (case step s of Inl e \<Rightarrow> Inl e | Inr (b, s') \<Rightarrow> run s'))"
  by pat_completeness auto
termination
proof (relation "measure (\<lambda>s. if finished s then 0 else Suc (nat (MAX_ITERS - iters s)))")
  show "wf (measure (\<lambda>s. if finished s then 0 else Suc (nat (MAX_ITERS - iters s))))"
    by simp
next
  fix s :: computer and x :: "bool \<times> computer" and b s'
  assume "\<not> finished s" and "step s = Inr x" and "(b, s') = x"
  then have "finished s' \<or> (iters s' = iters s + 1 \<and> iters s < MAX_ITERS)"
    using step_progress [of s b s'] by simp
  then show "(s', s) \<in> measure (\<lambda>s. if finished s then 0 else Suc (nat (MAX_ITERS - iters s)))"
    using \<open>\<not> finished s\<close> by auto
qed

declare run.simps [simp del]


section \<open>The assembler (assembler.py)\<close>

text \<open>
  The parse tree of the grammar. An \<open>expression\<close> is one statement of the symbolic
  assembly; \<open>registerset\<close> is the list of registers left of \<open>=\<close> in the order written;
  an operand is a register or one of the constants \<open>0\<close> and \<open>1\<close>. The grammar's
  \<open>nonmemreg\<close> is a register other than \<open>M\<close>, and \<open>calculate\<close> has no form with two
  constants (\<open>wf_expression\<close> below); the lowering functions treat every tree alike.
\<close>

datatype reg = RegA | RegB | RegC | RegD | RegM

datatype operand = Register reg | Zero | One

datatype operator = And | Or | Xor | Add | Sub | Mul | Div | Rem

datatype comp = Eq | Ne | Gt | Ge | Lt | Le

datatype immediate_arg = Number nat | Name string | Labelname string

datatype expression =
    Immediate immediate_arg
  | Copy "reg list" operand
  | Negate "reg list" operand
  | Negative "reg list" operand
  | Calculate "reg list" operand operator operand
  | Conditional operand comp operand string
  | Goto string
  | Label string
  | Jump

fun is_constant :: "operand \<Rightarrow> bool" where
  "is_constant (Register r) = False"
| "is_constant Zero = True"
| "is_constant One = True"

fun wf_expression :: "expression \<Rightarrow> bool" where
  "wf_expression (Immediate a) = True"
| "wf_expression (Copy dst src) = (dst \<noteq> [])"
| "wf_expression (Negate dst src) = (dst \<noteq> [])"
| "wf_expression (Negative dst src) = (dst \<noteq> [])"
| "wf_expression (Calculate dst x opr y) = (dst \<noteq> [] \<and> \<not> (is_constant x \<and> is_constant y))"
| "wf_expression (Conditional x c y l) =
     (x \<noteq> Register RegM \<and> y \<noteq> Register RegM \<and> \<not> (is_constant x \<and> is_constant y))"
| "wf_expression (Goto l) = True"
| "wf_expression (Label l) = True"
| "wf_expression Jump = True"

text \<open>The tables \<open>reg_map\<close>, \<open>op_map\<close> and \<open>cmp_map\<close>.\<close>

fun reg_letter :: "reg \<Rightarrow> char" where
  "reg_letter RegA = CHR ''A''"
| "reg_letter RegB = CHR ''B''"
| "reg_letter RegC = CHR ''C''"
| "reg_letter RegD = CHR ''D''"
| "reg_letter RegM = CHR ''M''"

fun reg_map :: "reg \<Rightarrow> string" where
  "reg_map RegA = ''000''"
| "reg_map RegB = ''001''"
| "reg_map RegC = ''010''"
| "reg_map RegD = ''011''"
| "reg_map RegM = ''111''"

fun register_or_constant :: "operand \<Rightarrow> string" where
  "register_or_constant (Register r) = reg_map r"
| "register_or_constant Zero = ''100''"
| "register_or_constant One = ''101''"

fun op_map :: "operator \<Rightarrow> string" where
  "op_map And = ''0010''"
| "op_map Or = ''0011''"
| "op_map Xor = ''0100''"
| "op_map Add = ''1010''"
| "op_map Sub = ''1011''"
| "op_map Mul = ''1100''"
| "op_map Div = ''1101''"
| "op_map Rem = ''1110''"

definition op_not_code :: string where "op_not_code = ''0001''"
definition op_cpy_code :: string where "op_cpy_code = ''1000''"
definition op_neg_code :: string where "op_neg_code = ''1001''"
definition op_jmp_code :: string where "op_jmp_code = ''1111''"

fun cmp_map :: "comp \<Rightarrow> string" where
  "cmp_map Eq = ''001''"
| "cmp_map Lt = ''010''"
| "cmp_map Le = ''011''"
| "cmp_map Ne = ''101''"
| "cmp_map Ge = ''110''"
| "cmp_map Gt = ''111''"

text \<open>\<open>__registers\<close>: one mask digit per destination, in the order A, B, C, D, M.\<close>

fun reg_index :: "reg \<Rightarrow> nat" where
  "reg_index RegA = 0"
| "reg_index RegB = 1"
| "reg_index RegC = 2"
| "reg_index RegD = 3"
| "reg_index RegM = 4"

definition registers :: "reg list \<Rightarrow> string" where
  "registers dst = foldl (\<lambda>bits r. bits[reg_index r := CHR ''1'']) ''00000'' dst"

text \<open>
  The pre-binary forms are strings, as in the source: an instruction word, a label
  definition (the marker, then the name) or a label reference (the name, then the marker).
\<close>

definition MARKER :: string where "MARKER = ''_____''"

definition startswith :: "string \<Rightarrow> string \<Rightarrow> bool" where
  "startswith s m \<longleftrightarrow> take (length m) s = m"

definition endswith :: "string \<Rightarrow> string \<Rightarrow> bool" where
  "endswith s m \<longleftrightarrow> length m \<le> length s \<and> drop (length s - length m) s = m"

text \<open>\<open>s.replace(MARKER, '')\<close>: every occurrence, found from the left, is removed.\<close>

function remove_marker :: "string \<Rightarrow> string" where
  "remove_marker [] = []"
| "remove_marker (c # cs) =
     (if startswith (c # cs) MARKER then remove_marker (drop (length MARKER) (c # cs))
      else c # remove_marker cs)"
  by pat_completeness auto
termination
  by (relation "measure length") (auto simp: MARKER_def)

text \<open>
  The unary and binary statements. The test on the length of a selector is the source's;
  every entry of \<open>reg_map\<close> has three digits.
\<close>

definition unary_words :: "string \<Rightarrow> reg list \<Rightarrow> operand \<Rightarrow> string list" where
  "unary_words opc dst src =
     (let res = registers dst; arg = register_or_constant src in
      (if length arg > 3 then [arg] else []) @
      [''1'' @ opc @ (if length arg > 3 then ''000'' else arg) @ ''000'' @ res])"

definition asm_copy :: "reg list \<Rightarrow> operand \<Rightarrow> string list" where
  "asm_copy dst src = unary_words op_cpy_code dst src"

definition asm_negate :: "reg list \<Rightarrow> operand \<Rightarrow> string list" where
  "asm_negate dst src = unary_words op_not_code dst src"

definition asm_negative :: "reg list \<Rightarrow> operand \<Rightarrow> string list" where
  "asm_negative dst src = unary_words op_neg_code dst src"

definition asm_calculate :: "reg list \<Rightarrow> operand \<Rightarrow> operator \<Rightarrow> operand \<Rightarrow> string list" where
  "asm_calculate dst x opr y =
     (let res = registers dst; arg1 = register_or_constant x; opc = op_map opr;
          arg2 = register_or_constant y in
      (if length arg1 > 3 then [arg1] else []) @
      (if length arg2 > 3 then [arg2] else []) @
      [''1'' @ opc @ (if length arg1 > 3 then ''000'' else arg1)
         @ (if length arg2 > 3 then ''000'' else arg2) @ res])"

definition asm_goto :: "string \<Rightarrow> string list" where
  "asm_goto label = [label @ MARKER, ''1111100000000100'']"

definition asm_conditional :: "operand \<Rightarrow> comp \<Rightarrow> operand \<Rightarrow> string \<Rightarrow> string list" where
  "asm_conditional x c y label =
     [label @ MARKER,
      ''11111'' @ register_or_constant x @ register_or_constant y @ ''00'' @ cmp_map c]"

definition asm_label :: "string \<Rightarrow> string list" where
  "asm_label label = [MARKER @ label]"

definition asm_jump :: "string list" where
  "asm_jump = [''1111100000000100'']"

text \<open>
  The tables of an assembly run. \<open>varlookup\<close> is a dictionary in insertion order (its
  length allocates the next variable); \<open>labelmap\<close> maps a defined label to its address,
  \<open>None\<close> until the address is known.
\<close>

type_synonym varlookup = "(string \<times> int) list"
type_synonym labelmap = "string \<rightharpoonup> nat option"

definition predefined :: varlookup where
  "predefined =
     [(''R0'', 0), (''R1'', 1), (''R2'', 2), (''R3'', 3), (''R4'', 4), (''R5'', 5),
      (''R6'', 6), (''R7'', 7), (''R8'', 8), (''R9'', 9), (''R10'', 10), (''R11'', 11),
      (''R12'', 12), (''R13'', 13), (''R14'', 14), (''R15'', 15),
      (''SP'', 0), (''LCL'', 1), (''ARG'', 2), (''THIS'', 3), (''THAT'', 4),
      (''SCREEN'', int SCREEN), (''DISPLAY'', int DISPLAY), (''KEYBOARD'', int KEYBOARD),
      (''INPUT'', int INPUT), (''OUTPUT'', int OUTPUT)]"

definition predefined_variables :: nat where
  "predefined_variables = length predefined"

text \<open>
  \<open>__immediate\<close>: a name that is a defined label becomes a label reference; a number is
  encoded as it is; any other name is a variable, allocated on first sight.
\<close>

definition immediate_word :: "int \<Rightarrow> string" where
  "immediate_word v = CHR ''0'' # fmt_bin 15 v"

definition lookup_variable :: "varlookup \<Rightarrow> string \<Rightarrow> varlookup \<times> int" where
  "lookup_variable vars x =
     (case map_of vars x of
        Some v \<Rightarrow> (vars, v)
      | None \<Rightarrow>
          (let v = int STATIC + int (length vars) - int predefined_variables
           in (vars @ [(x, v)], v)))"

fun asm_immediate :: "labelmap \<Rightarrow> varlookup \<Rightarrow> immediate_arg \<Rightarrow> varlookup \<times> string list" where
  "asm_immediate labels vars (Number n) = (vars, [immediate_word (int n)])"
| "asm_immediate labels vars (Name x) =
     (if x \<in> dom labels then (vars, [x @ MARKER])
      else (let (vars', v) = lookup_variable vars x in (vars', [immediate_word v])))"
| "asm_immediate labels vars (Labelname x) =
     (if x \<in> dom labels then (vars, [x @ MARKER])
      else (let (vars', v) = lookup_variable vars x in (vars', [immediate_word v])))"

text \<open>\<open>parse_map\<close>: the lowering of one statement.\<close>

fun lower :: "labelmap \<Rightarrow> varlookup \<Rightarrow> expression \<Rightarrow> varlookup \<times> string list" where
  "lower labels vars (Immediate a) = asm_immediate labels vars a"
| "lower labels vars (Copy dst src) = (vars, asm_copy dst src)"
| "lower labels vars (Negate dst src) = (vars, asm_negate dst src)"
| "lower labels vars (Negative dst src) = (vars, asm_negative dst src)"
| "lower labels vars (Calculate dst x opr y) = (vars, asm_calculate dst x opr y)"
| "lower labels vars (Conditional x c y l) = (vars, asm_conditional x c y l)"
| "lower labels vars (Goto l) = (vars, asm_goto l)"
| "lower labels vars (Label l) = (vars, asm_label l)"
| "lower labels vars Jump = (vars, asm_jump)"

text \<open>The four loops of \<open>assemble\<close>.\<close>

fun first_pass :: "labelmap \<Rightarrow> expression list \<Rightarrow> error + labelmap" where
  "first_pass labels [] = Inr labels"
| "first_pass labels (Label l # rest) =
     (if l \<in> dom labels then Inl (RuntimeError (''Label '' @ l @ '' already defined''))
      else first_pass (labels(l \<mapsto> None)) rest)"
| "first_pass labels (e # rest) = first_pass labels rest"

fun second_pass :: "labelmap \<Rightarrow> varlookup \<Rightarrow> expression list \<Rightarrow> string list" where
  "second_pass labels vars [] = []"
| "second_pass labels vars (e # rest) =
     (let (vars', pre) = lower labels vars e in pre @ second_pass labels vars' rest)"

fun third_pass :: "labelmap \<Rightarrow> nat \<Rightarrow> string list \<Rightarrow> labelmap" where
  "third_pass labels linenum [] = labels"
| "third_pass labels linenum (instruction # rest) =
     (if startswith instruction MARKER
      then third_pass (labels(remove_marker instruction \<mapsto> Some linenum)) linenum rest
      else third_pass labels (linenum + 1) rest)"

fun fourth_pass :: "labelmap \<Rightarrow> string list \<Rightarrow> error + string list" where
  "fourth_pass labels [] = Inr []"
| "fourth_pass labels (instruction # rest) =
     (if endswith instruction MARKER then
        (let label = remove_marker instruction in
         case labels label of
           None \<Rightarrow> Inl (RuntimeError (''Label '' @ label @ '' not defined''))
         | Some None \<Rightarrow> Inl TypeError
         | Some (Some addr) \<Rightarrow>
             ebind (fourth_pass labels rest) (\<lambda>ws. Inr (immediate_word (int addr) # ws)))
      else if \<not> startswith instruction MARKER then
        ebind (fourth_pass labels rest) (\<lambda>ws. Inr (instruction # ws))
      else fourth_pass labels rest)"

definition assemble :: "expression list \<Rightarrow> error + string list" where
  "assemble ptree =
     ebind (first_pass Map.empty ptree) (\<lambda>labels.
     let pre_instructions = second_pass labels predefined ptree;
         labels' = third_pass labels 0 pre_instructions
     in fourth_pass labels' pre_instructions)"

text \<open>\<open>str(n)\<close>: the decimal digits of an integer.\<close>

fun dec_digits :: "nat \<Rightarrow> string" where
  "dec_digits n =
     (if n < 10 then [''0123456789'' ! n]
      else dec_digits (n div 10) @ [''0123456789'' ! (n mod 10)])"

declare dec_digits.simps [simp del]

definition str_int :: "int \<Rightarrow> string" where
  "str_int v = (if v < 0 then CHR ''-'' # dec_digits (nat (- v)) else dec_digits (nat v))"

text \<open>
  \<open>disassemble\<close>: one instruction word back to a symbolic line. A missing key of one of
  its three tables raises KeyError.
\<close>

definition modes :: "(string \<times> string) list" where
  "modes =
     [(''0001'', ''NOT''), (''0010'', ''AND''), (''0011'', ''OR''), (''0100'', ''XOR''),
      (''1000'', ''CPY''), (''1001'', ''NEG''), (''1010'', ''ADD''), (''1011'', ''SUB''),
      (''1100'', ''MUL''), (''1101'', ''DIV''), (''1110'', ''REM''), (''1111'', ''JMP'')]"

definition ops :: "(string \<times> string) list" where
  "ops =
     [(''000'', ''A''), (''001'', ''B''), (''010'', ''C''), (''011'', ''D''),
      (''100'', ''0''), (''101'', ''1''), (''111'', ''M'')]"

definition cmps :: "(string \<times> string) list" where
  "cmps =
     [(''000'', ''NIL''), (''001'', ''=''), (''010'', ''<''), (''011'', ''<=''),
      (''100'', ''JMP''), (''101'', ''!=''), (''110'', ''>=''), (''111'', ''>'')]"

definition unary_signs :: "(string \<times> string) list" where
  "unary_signs = [(''NOT'', ''!''), (''CPY'', []), (''NEG'', ''-'')]"

definition binary_signs :: "(string \<times> string) list" where
  "binary_signs =
     [(''AND'', ''&''), (''OR'', ''|''), (''XOR'', ''^''), (''ADD'', ''+''), (''SUB'', ''-''),
      (''MUL'', ''*''), (''DIV'', ''/''), (''REM'', ''%'')]"

definition lookup :: "(string \<times> 'a) list \<Rightarrow> string \<Rightarrow> error + 'a" where
  "lookup table k = (case map_of table k of None \<Rightarrow> Inl KeyError | Some v \<Rightarrow> Inr v)"

definition disassemble :: "string \<Rightarrow> error + string" where
  "disassemble instruction =
     ebind (py_get instruction 0) (\<lambda>c0.
     if c0 = CHR ''0'' then
       ebind (int2 (drop 1 instruction)) (\<lambda>v. Inr (''@'' @ str_int v))
     else
       ebind (lookup modes (take 4 (drop 1 instruction))) (\<lambda>mode.
       ebind (lookup ops (take 3 (drop 5 instruction))) (\<lambda>x.
       ebind (lookup ops (take 3 (drop 8 instruction))) (\<lambda>y.
       let res = map fst (filter (\<lambda>(a, i). i = CHR ''1'') (zip ''ABCDM'' (drop 11 instruction)))
       in
         if mode = ''JMP'' then
           ebind (lookup cmps (drop 13 instruction)) (\<lambda>c.
           if c = ''NIL'' \<or> c = ''JMP'' then Inr c
           else Inr (''JMP '' @ x @ '' '' @ c @ '' '' @ y))
         else if mode = ''NOT'' \<or> mode = ''CPY'' \<or> mode = ''NEG'' then
           ebind (lookup unary_signs mode) (\<lambda>sign. Inr (res @ '' = '' @ sign @ x))
         else
           ebind (lookup binary_signs mode) (\<lambda>sign.
           Inr (res @ '' = '' @ x @ '' '' @ sign @ '' '' @ y))))))"

text \<open>
  \<open>assemble\<close> receives lines of text and parses them with the grammar before its first
  loop. The parser is a library; \<open>parse_line\<close> reads the grammar for a line that holds at
  most one statement, which is how the translator writes its output: white space and a
  comment from \<open>#\<close> on are dropped, then the line is an immediate (\<open>@\<close>), a label in
  parentheses, \<open>JUMP\<close>, \<open>GOTO\<close> and a label, a condition with \<open>?\<close> and a label, or a
  register set, \<open>=\<close> and a right-hand side. A line that is none of these is a syntax error.
\<close>

definition is_letter :: "char \<Rightarrow> bool" where
  "is_letter c \<longleftrightarrow> c \<in> set ''abcdefghijklmnopqrstuvwxyzABCDEFGHIJKLMNOPQRSTUVWXYZ''"

definition is_digit :: "char \<Rightarrow> bool" where
  "is_digit c \<longleftrightarrow> c \<in> set ''0123456789''"

definition is_ws :: "char \<Rightarrow> bool" where
  "is_ws c \<longleftrightarrow> c \<in> {CHR '' '', CHR 0x09, CHR 0x0A, CHR 0x0C, CHR 0x0D}"

fun is_lname :: "string \<Rightarrow> bool" where
  "is_lname [] = False"
| "is_lname (c # cs) =
     ((c = CHR ''_'' \<or> is_letter c)
      \<and> list_all (\<lambda>d. d \<in> set ''_:.$'' \<or> is_letter d \<or> is_digit d) cs)"

fun is_cname :: "string \<Rightarrow> bool" where
  "is_cname [] = False"
| "is_cname (c # cs) =
     ((c = CHR ''_'' \<or> is_letter c)
      \<and> list_all (\<lambda>d. d = CHR ''_'' \<or> is_letter d \<or> is_digit d) cs)"

definition digit_value :: "char \<Rightarrow> nat" where
  "digit_value c = length (takeWhile (\<lambda>d. d \<noteq> c) ''0123456789'')"

definition nat_of_dec :: "string \<Rightarrow> nat" where
  "nat_of_dec s = foldl (\<lambda>acc c. 10 * acc + digit_value c) 0 s"

fun parse_register :: "char \<Rightarrow> reg option" where
  "parse_register c =
     (if c = CHR ''A'' then Some RegA
      else if c = CHR ''B'' then Some RegB
      else if c = CHR ''C'' then Some RegC
      else if c = CHR ''D'' then Some RegD
      else if c = CHR ''M'' then Some RegM
      else None)"

fun parse_operand :: "char \<Rightarrow> operand option" where
  "parse_operand c =
     (if c = CHR ''0'' then Some Zero
      else if c = CHR ''1'' then Some One
      else map_option Register (parse_register c))"

fun parse_registerset :: "string \<Rightarrow> reg list option" where
  "parse_registerset [] = Some []"
| "parse_registerset (c # cs) =
     (case parse_register c of None \<Rightarrow> None
      | Some r \<Rightarrow> map_option (\<lambda>rs. r # rs) (parse_registerset cs))"

fun parse_operator :: "char \<Rightarrow> operator option" where
  "parse_operator c =
     (if c = CHR ''&'' then Some And
      else if c = CHR ''|'' then Some Or
      else if c = CHR ''^'' then Some Xor
      else if c = CHR ''+'' then Some Add
      else if c = CHR ''-'' then Some Sub
      else if c = CHR ''*'' then Some Mul
      else if c = CHR ''/'' then Some Div
      else if c = CHR ''%'' then Some Rem
      else None)"

definition parse_comp :: "string \<Rightarrow> comp option" where
  "parse_comp s =
     (if s = ''='' then Some Eq
      else if s = ''!='' then Some Ne
      else if s = ''>'' then Some Gt
      else if s = ''>='' then Some Ge
      else if s = ''<'' then Some Lt
      else if s = ''<='' then Some Le
      else None)"

definition parse_rhs :: "reg list \<Rightarrow> string \<Rightarrow> expression option" where
  "parse_rhs dst rhs =
     (case rhs of
        [x] \<Rightarrow> map_option (Copy dst) (parse_operand x)
      | [s, x] \<Rightarrow>
          (if s = CHR ''!'' then map_option (Negate dst) (parse_operand x)
           else if s = CHR ''-'' then map_option (Negative dst) (parse_operand x)
           else None)
      | [x, opr, y] \<Rightarrow>
          (case (parse_operand x, parse_operator opr, parse_operand y) of
             (Some a, Some f, Some b) \<Rightarrow>
               (if is_constant a \<and> is_constant b then None else Some (Calculate dst a f b))
           | _ \<Rightarrow> None)
      | _ \<Rightarrow> None)"

definition parse_condition :: "string \<Rightarrow> string \<Rightarrow> expression option" where
  "parse_condition cond label =
     (case cond of
        x # rest \<Rightarrow>
          (if rest = [] then None
           else (case (parse_operand x, parse_comp (butlast rest), parse_operand (last rest)) of
              (Some a, Some c, Some b) \<Rightarrow>
                (if a = Register RegM \<or> b = Register RegM \<or> (is_constant a \<and> is_constant b)
                    \<or> \<not> is_lname label
                 then None else Some (Conditional a c b label))
            | _ \<Rightarrow> None))
      | [] \<Rightarrow> None)"

definition upper_char :: "char \<Rightarrow> char" where
  "upper_char c =
     (case map_of (zip ''abcdefghijklmnopqrstuvwxyz'' ''ABCDEFGHIJKLMNOPQRSTUVWXYZ'') c of
        None \<Rightarrow> c | Some u \<Rightarrow> u)"

definition keyword :: "string \<Rightarrow> string \<Rightarrow> bool" where
  "keyword upper s \<longleftrightarrow> map upper_char s = upper"

definition parse_line :: "string \<Rightarrow> error + expression option" where
  "parse_line line =
     (let t = filter (\<lambda>c. \<not> is_ws c) (takeWhile (\<lambda>c. c \<noteq> CHR ''#'') line) in
      if t = [] then Inr None
      else if hd t = CHR ''@'' then
        (let x = tl t in
         if x \<noteq> [] \<and> list_all is_digit x then Inr (Some (Immediate (Number (nat_of_dec x))))
         else if is_cname x then Inr (Some (Immediate (Name x)))
         else if is_lname x then Inr (Some (Immediate (Labelname x)))
         else Inl ParseError)
      else if hd t = CHR ''('' then
        (if 2 \<le> length t \<and> last t = CHR '')'' \<and> is_lname (butlast (tl t))
         then Inr (Some (Label (butlast (tl t)))) else Inl ParseError)
      else if keyword ''JUMP'' t then Inr (Some Jump)
      else if keyword ''GOTO'' (take 4 t) then
        (if is_lname (drop 4 t) then Inr (Some (Goto (drop 4 t))) else Inl ParseError)
      else if CHR ''?'' \<in> set t then
        (case parse_condition (takeWhile (\<lambda>c. c \<noteq> CHR ''?'') t)
                (tl (dropWhile (\<lambda>c. c \<noteq> CHR ''?'') t)) of
           None \<Rightarrow> Inl ParseError | Some e \<Rightarrow> Inr (Some e))
      else if CHR ''='' \<in> set t then
        (case parse_registerset (takeWhile (\<lambda>c. c \<noteq> CHR ''='') t) of
           None \<Rightarrow> Inl ParseError
         | Some dst \<Rightarrow>
             (if dst = [] then Inl ParseError
              else (case parse_rhs dst (tl (dropWhile (\<lambda>c. c \<noteq> CHR ''='') t)) of
                      None \<Rightarrow> Inl ParseError | Some e \<Rightarrow> Inr (Some e))))
      else Inl ParseError)"

fun parse_lines :: "string list \<Rightarrow> error + expression list" where
  "parse_lines [] = Inr []"
| "parse_lines (l # ls) =
     ebind (parse_line l) (\<lambda>e.
     ebind (parse_lines ls) (\<lambda>es.
     Inr (case e of None \<Rightarrow> es | Some x \<Rightarrow> x # es)))"

definition assemble_lines :: "string list \<Rightarrow> error + string list" where
  "assemble_lines instructions = ebind (parse_lines instructions) assemble"

section \<open>The translator (translator.py)\<close>

text \<open>
  The parse tree of the stack-machine language, with the segment and operator names as the
  grammar's aliases. The translator keeps two fields between statements: the counter
  of synthetic labels and the name of the function being translated.
\<close>

datatype segment =
  LOCAL | ARGUMENT | THIS | THAT | CONSTANT | STATIC_SEG | POINTER | TEMP

datatype vm_operator =
    VM_AND | VM_OR | VM_NOT | VM_XOR | VM_ADD | VM_SUB | VM_NEG | VM_MUL | VM_DIV | VM_REM
  | VM_EQ | VM_LT | VM_GT | VM_NE | VM_LE | VM_GE

datatype statement =
    PUSH segment nat
  | POP segment nat
  | OPERATOR vm_operator
  | LABEL string
  | GOTO string
  | IFGOTO string
  | FCALL string nat
  | FDEFINE string nat
  | FRETURN
  | OUTPUT_STMT segment nat

record translator =
  label_counter :: nat
  current_function :: "string option"

definition new_translator :: translator where
  "new_translator = \<lparr> label_counter = 0, current_function = None \<rparr>"

definition TMARKER :: string where "TMARKER = ''____''"

fun segment_name :: "segment \<Rightarrow> string" where
  "segment_name LOCAL = ''LOCAL''"
| "segment_name ARGUMENT = ''ARGUMENT''"
| "segment_name THIS = ''THIS''"
| "segment_name THAT = ''THAT''"
| "segment_name CONSTANT = ''CONSTANT''"
| "segment_name STATIC_SEG = ''STATIC''"
| "segment_name POINTER = ''POINTER''"
| "segment_name TEMP = ''TEMP''"

fun operator_name :: "vm_operator \<Rightarrow> string" where
  "operator_name VM_AND = ''AND''"
| "operator_name VM_OR = ''OR''"
| "operator_name VM_NOT = ''NOT''"
| "operator_name VM_XOR = ''XOR''"
| "operator_name VM_ADD = ''ADD''"
| "operator_name VM_SUB = ''SUB''"
| "operator_name VM_NEG = ''NEG''"
| "operator_name VM_MUL = ''MUL''"
| "operator_name VM_DIV = ''DIV''"
| "operator_name VM_REM = ''REM''"
| "operator_name VM_EQ = ''EQ''"
| "operator_name VM_LT = ''LT''"
| "operator_name VM_GT = ''GT''"
| "operator_name VM_NE = ''NE''"
| "operator_name VM_LE = ''LE''"
| "operator_name VM_GE = ''GE''"

text \<open>
  The comment that heads every lowered statement: the text centred in 24 columns
  (\<open>f'{comment:^24}'\<close> puts the smaller half of the padding on the left).
\<close>

definition center :: "nat \<Rightarrow> string \<Rightarrow> string" where
  "center w s =
     (let pad = w - length s; left = pad div 2
      in replicate left CHR '' '' @ s @ replicate (pad - left) CHR '' '')"

definition comment_line :: "string \<Rightarrow> string" where
  "comment_line c = ''#-------  '' @ center 24 c @ ''  -------''"

definition str_nat :: "nat \<Rightarrow> string" where
  "str_nat n = str_int (int n)"

text \<open>\<open>f'{n:04d}'\<close>.\<close>

definition fmt_04d :: "nat \<Rightarrow> string" where
  "fmt_04d n = zfill 4 (dec_digits n)"

definition bootstrap :: "string list" where
  "bootstrap = [comment_line ''BOOTSTRAP'', ''@256'', ''D=A'', ''@SP'', ''M=D'']"

definition make_label :: "translator \<Rightarrow> string \<Rightarrow> string" where
  "make_label t cmdlabel =
     (case current_function t of None \<Rightarrow> cmdlabel | Some f \<Rightarrow> f @ ''.'' @ cmdlabel)"

text \<open>
  \<open>__push_from\<close> and \<open>__pop_into\<close> accept a register name that occurs in the string
  \<open>'BCD'\<close> and raise RuntimeError for any other.
\<close>

definition in_BCD :: "string \<Rightarrow> bool" where
  "in_BCD r \<longleftrightarrow> r \<in> set [[], ''B'', ''C'', ''D'', ''BC'', ''CD'', ''BCD'']"

definition push_from :: "string \<Rightarrow> error + string list" where
  "push_from r =
     (if \<not> in_BCD r then Inl (RuntimeError (''invalid register '' @ r))
      else Inr [''@SP'', ''AM=M+1'', ''A=A-1'', ''M='' @ r])"

definition pop_into :: "string \<Rightarrow> error + string list" where
  "pop_into r =
     (if \<not> in_BCD r then Inl (RuntimeError (''invalid register '' @ r))
      else Inr [''@SP'', ''AM=M-1'', r @ ''=M''])"

definition tr_label :: "translator \<Rightarrow> string \<Rightarrow> translator \<times> string list" where
  "tr_label t label =
     (t\<lparr>label_counter := label_counter t + 1\<rparr>,
      [comment_line (''label '' @ label), ''('' @ make_label t label @ '')''])"

definition tr_goto :: "translator \<Rightarrow> string \<Rightarrow> string list" where
  "tr_goto t label = [comment_line (''goto '' @ label), ''goto '' @ make_label t label]"

fun repeat_lines :: "nat \<Rightarrow> string list \<Rightarrow> string list" where
  "repeat_lines 0 ls = []"
| "repeat_lines (Suc n) ls = ls @ repeat_lines n ls"

definition tr_function :: "translator \<Rightarrow> string \<Rightarrow> nat \<Rightarrow> error + translator \<times> string list" where
  "tr_function t name nvars =
     ebind (if nvars = 0 then Inr [] else push_from ''D'') (\<lambda>push.
     Inr (t\<lparr>current_function := Some name\<rparr>,
          [comment_line (''function '' @ name @ '' '' @ str_nat nvars),
           ''('' @ name @ '')'', ''@0'', ''D=A''] @ repeat_lines nvars push))"

definition opmap :: "(string \<times> string) list" where
  "opmap =
     [(''EQ'', ''=''), (''LT'', ''<''), (''GT'', ''>''), (''NE'', ''!=''), (''LE'', ''<=''),
      (''GE'', ''>='')]"

definition tr_conditional :: "translator \<Rightarrow> string \<Rightarrow> string list \<Rightarrow> string list
    \<Rightarrow> error + translator \<times> string list" where
  "tr_conditional t opn truecmds falsecmds =
     ebind (lookup opmap opn) (\<lambda>sign.
     Inr (t\<lparr>label_counter := label_counter t + 1\<rparr>,
          [''C'' @ sign @ ''B? '' @ TMARKER @ opn @ ''_BEGIN'' @ fmt_04d (label_counter t)]
          @ falsecmds
          @ [''GOTO '' @ TMARKER @ opn @ ''_END'' @ fmt_04d (label_counter t),
             ''('' @ TMARKER @ opn @ ''_BEGIN'' @ fmt_04d (label_counter t) @ '')'']
          @ truecmds
          @ [''('' @ TMARKER @ opn @ ''_END'' @ fmt_04d (label_counter t) @ '')'']))"

definition operator_lookup :: "(string \<times> string list) list" where
  "operator_lookup =
     [(''AND'', [''D=C&B'']), (''OR'', [''D=C|B'']), (''NOT'', [''D=!B'']),
      (''ADD'', [''D=C+B'']), (''SUB'', [''D=C-B'']), (''NEG'', [''D=-B'']),
      (''MUL'', [''D=C*B''])]"

definition tr_operator :: "translator \<Rightarrow> string \<Rightarrow> error + translator \<times> string list" where
  "tr_operator t opn =
     ebind (pop_into ''B'') (\<lambda>popB.
     ebind (if opn \<noteq> ''NOT'' \<and> opn \<noteq> ''NEG'' then pop_into ''C'' else Inr []) (\<lambda>popC.
     let asm = [comment_line opn] @ popB @ popC in
     case map_of operator_lookup opn of
       Some ls \<Rightarrow> ebind (push_from ''D'') (\<lambda>push. Inr (t, asm @ ls @ push))
     | None \<Rightarrow>
         ebind (push_from ''D'') (\<lambda>push1.
         ebind (push_from ''D'') (\<lambda>push2.
         ebind (tr_conditional t opn ([''D=!0''] @ push1) ([''D=0''] @ push2)) (\<lambda>(t', ls).
         Inr (t', asm @ ls))))))"

definition advance_A :: "nat \<Rightarrow> string list" where
  "advance_A offset =
     (if offset > 3 then [''B=A'', ''@'' @ str_nat offset, ''A=A+B'']
      else replicate offset ''A=A+1'')"

definition tr_output :: "segment \<Rightarrow> nat \<Rightarrow> error + string list" where
  "tr_output seg num =
     (let comment = [comment_line (''output '' @ segment_name seg @ '' '' @ str_nat num)] in
      if seg = ARGUMENT then
        Inr (comment @ [''@ARG'', ''A=M''] @ advance_A num @ [''D=M'', ''@OUTPUT'', ''M=D''])
      else if seg = LOCAL then
        Inr (comment @ [''@LCL'', ''A=M''] @ advance_A num @ [''D=M'', ''@OUTPUT'', ''M=D''])
      else if seg = STATIC_SEG then
        Inr (comment @ [''@'' @ segment_name seg @ fmt_04d num, ''D=M'', ''@OUTPUT'', ''M=D''])
      else if seg = CONSTANT then
        Inr (comment @ [''@'' @ str_nat num, ''D=A'', ''@OUTPUT'', ''M=D''])
      else Inl (RuntimeError ''invalid instruction''))"

definition tr_push :: "segment \<Rightarrow> nat \<Rightarrow> error + string list" where
  "tr_push seg num =
     (let comment = [comment_line (''push '' @ segment_name seg @ '' '' @ str_nat num)];
          advance = advance_A num in
      ebind (push_from ''D'') (\<lambda>push.
      if seg = ARGUMENT then Inr (comment @ [''@ARG'', ''A=M''] @ advance @ [''D=M''] @ push)
      else if seg = CONSTANT then Inr (comment @ [''@'' @ str_nat num, ''D=A''] @ push)
      else if seg = LOCAL then Inr (comment @ [''@LCL'', ''A=M''] @ advance @ [''D=M''] @ push)
      else Inr comment))"

definition tr_pop :: "segment \<Rightarrow> nat \<Rightarrow> error + string list" where
  "tr_pop seg num =
     (let comment = [comment_line (''pop '' @ segment_name seg @ '' '' @ str_nat num)];
          advance = advance_A num in
      ebind (pop_into ''D'') (\<lambda>pop.
      if seg = ARGUMENT then Inr (comment @ pop @ [''@ARG'', ''A=M''] @ advance @ [''M=D''])
      else if seg = LOCAL then Inr (comment @ pop @ [''@LCL'', ''A=M''] @ advance @ [''M=D''])
      else Inr comment))"

definition tr_ifgoto :: "translator \<Rightarrow> string \<Rightarrow> error + string list" where
  "tr_ifgoto t label =
     ebind (pop_into ''D'') (\<lambda>pop.
     Inr ([comment_line (''if-goto '' @ label)] @ pop @ [''D!=0? '' @ make_label t label]))"

definition tr_call :: "translator \<Rightarrow> string \<Rightarrow> nat \<Rightarrow> error + translator \<times> string list" where
  "tr_call t name nargs =
     (let return_address_label = name @ ''$ret.'' @ str_nat (label_counter t) in
      ebind (push_from ''D'') (\<lambda>push.
      Inr (t\<lparr>label_counter := label_counter t + 1\<rparr>,
           [comment_line (''call '' @ name @ '' '' @ str_nat nargs)]
           @ [''@'' @ return_address_label, ''D=A''] @ push
           @ concat (map (\<lambda>seg. [''@'' @ seg, ''D=M''] @ push) [''LCL'', ''ARG'', ''THIS'', ''THAT''])
           @ [''@SP'', ''D=M'', ''@'' @ str_nat nargs, ''D=D-A'', ''@5'', ''D=D-A'', ''@ARG'', ''M=D'',
              ''@SP'', ''D=M'', ''@LCL'', ''M=D'', ''@'' @ name, ''JUMP'',
              ''('' @ return_address_label @ '')''])))"

definition tr_return :: "string list" where
  "tr_return =
     [comment_line ''return'']
     @ [''@LCL'', ''D=M'', ''@R13'', ''M=D'',
        ''@5'', ''A=D-A'', ''D=M'', ''@R14'', ''M=D'',
        ''@SP'', ''A=M-1'', ''D=M'', ''@ARG'', ''A=M'', ''M=D'',
        ''@ARG'', ''D=M+1'', ''@SP'', ''M=D'',
        ''@R13'', ''AM=M-1'', ''D=M'', ''@THAT'', ''M=D'',
        ''@R13'', ''AM=M-1'', ''D=M'', ''@THIS'', ''M=D'',
        ''@R13'', ''AM=M-1'', ''D=M'', ''@ARG'', ''M=D'',
        ''@R13'', ''AM=M-1'', ''D=M'', ''@LCL'', ''M=D'',
        ''@R14'', ''A=M'', ''JUMP'']"

text \<open>The branch of \<open>translate\<close>'s loop for one statement.\<close>

fun tr_statement :: "translator \<Rightarrow> statement \<Rightarrow> error + translator \<times> string list" where
  "tr_statement t (OPERATOR opr) = tr_operator t (operator_name opr)"
| "tr_statement t (PUSH seg num) = ebind (tr_push seg num) (\<lambda>ls. Inr (t, ls))"
| "tr_statement t (POP seg num) = ebind (tr_pop seg num) (\<lambda>ls. Inr (t, ls))"
| "tr_statement t (LABEL l) = Inr (tr_label t l)"
| "tr_statement t (GOTO l) = Inr (t, tr_goto t l)"
| "tr_statement t (IFGOTO l) = ebind (tr_ifgoto t l) (\<lambda>ls. Inr (t, ls))"
| "tr_statement t (FCALL fname fargs) = tr_call t fname fargs"
| "tr_statement t (FDEFINE fname fvars) = tr_function t fname fvars"
| "tr_statement t FRETURN = Inr (t, tr_return)"
| "tr_statement t (OUTPUT_STMT seg num) = ebind (tr_output seg num) (\<lambda>ls. Inr (t, ls))"

fun tr_statements :: "translator \<Rightarrow> statement list \<Rightarrow> error + translator \<times> string list" where
  "tr_statements t [] = Inr (t, [])"
| "tr_statements t (x # xs) =
     ebind (tr_statement t x) (\<lambda>(t1, ls).
     ebind (tr_statements t1 xs) (\<lambda>(t2, rest).
     Inr (t2, ls @ rest)))"

definition translate_from :: "translator \<Rightarrow> statement list \<Rightarrow> error + translator \<times> string list" where
  "translate_from t ptree =
     ebind (tr_call t ''Main.main'' 0) (\<lambda>(t1, call).
     ebind (tr_statements t1 ptree) (\<lambda>(t2, body).
     Inr (t2, bootstrap @ call @ [''goto _END_PROGRAM_''] @ body @ [''(_END_PROGRAM_)''])))"

definition translate :: "statement list \<Rightarrow> error + string list" where
  "translate ptree = ebind (translate_from new_translator ptree) (\<lambda>(t, asmins). Inr asmins)"

text \<open>The three stages in a row, as \<open>main.py\<close> runs them.\<close>

definition run_vm :: "statement list \<Rightarrow> error + computer" where
  "run_vm ptree =
     ebind (translate ptree) (\<lambda>asmins.
     ebind (assemble_lines asmins) (\<lambda>binins.
     run (load binins)))"

section \<open>Programs and notions used in the statements\<close>

text \<open>
  Two machine programs: \<open>jump_to_A\<close> is \<open>@2\<close>, \<open>B=A\<close>, \<open>@9\<close> and an unconditional
  JMP whose operand-A selector names register B; \<open>self_loop\<close> is the single word that
  \<open>JUMP\<close> assembles to, an unconditional jump to the address in A, which is 0 on a
  fresh machine.
\<close>

definition jump_to_A :: "string list" where
  "jump_to_A = [''0000000000000010'', ''1100000000001000'', ''0000000000001001'',
                ''1111100100000100'']"

definition self_loop :: "string list" where
  "self_loop = [''1111100000000100'']"

text \<open>The names that the label-definition statements of a parse tree define, in order.\<close>

fun defined_labels :: "expression list \<Rightarrow> string list" where
  "defined_labels [] = []"
| "defined_labels (Label l # rest) = l # defined_labels rest"
| "defined_labels (e # rest) = defined_labels rest"

text \<open>
  The text of the grammar's terminals, for comparing a disassembled line with the
  statement it came from, and the destination registers of a statement listed once each
  in the order of the mask digits, A, B, C, D, M.
\<close>

fun operand_text :: "operand \<Rightarrow> string" where
  "operand_text (Register r) = [reg_letter r]"
| "operand_text Zero = ''0''"
| "operand_text One = ''1''"

fun operator_text :: "operator \<Rightarrow> string" where
  "operator_text And = ''&''"
| "operator_text Or = ''|''"
| "operator_text Xor = ''^''"
| "operator_text Add = ''+''"
| "operator_text Sub = ''-''"
| "operator_text Mul = ''*''"
| "operator_text Div = ''/''"
| "operator_text Rem = ''%''"

fun comp_text :: "comp \<Rightarrow> string" where
  "comp_text Eq = ''=''"
| "comp_text Ne = ''!=''"
| "comp_text Gt = ''>''"
| "comp_text Ge = ''>=''"
| "comp_text Lt = ''<''"
| "comp_text Le = ''<=''"

definition mask_order :: "reg list \<Rightarrow> reg list" where
  "mask_order dst = filter (\<lambda>r. r \<in> set dst) [RegA, RegB, RegC, RegD, RegM]"

text \<open>
  \<open>steps n\<close> is \<open>n\<close> rounds of the loop of \<open>run\<close>, and \<open>stack_top\<close> reads the cell
  below the stack pointer, \<open>ram[ram[0] - 1]\<close>: the top of the operand stack.
\<close>

fun steps :: "nat \<Rightarrow> computer \<Rightarrow> error + computer" where
  "steps 0 s = Inr s"
| "steps (Suc n) s =
     (if finished s then Inr s else ebind (step s) (\<lambda>(b, s'). steps n s'))"

definition stack_top :: "computer \<Rightarrow> error + int" where
  "stack_top c = ebind (py_get (ram c) 0) (\<lambda>sp. py_get (ram c) (sp - 1))"

text \<open>
  Two stack-machine programs: the three statements \<open>push constant 7\<close>,
  \<open>push constant 8\<close>, \<open>add\<close>, and the same three as the body of the entry function
  \<open>Main.main\<close>.
\<close>

definition push_push_add :: "statement list" where
  "push_push_add = [PUSH CONSTANT 7, PUSH CONSTANT 8, OPERATOR VM_ADD]"

definition main_push_push_add :: "statement list" where
  "main_push_push_add =
     [FDEFINE ''Main.main'' 0, PUSH CONSTANT 7, PUSH CONSTANT 8, OPERATOR VM_ADD]"

section \<open>Evaluation rules\<close>

text \<open>
  Rules that let the simplifier run the three stages on concrete inputs: the digit
  functions on numerals, padding, and the collections of defining equations.
\<close>

lemma bin_digits_0 [simp]: "bin_digits 0 = ''0''"
  by (simp add: bin_digits.simps)

lemma bin_digits_1 [simp]: "bin_digits 1 = ''1''" "bin_digits (Suc 0) = ''1''"
  by (simp_all add: bin_digits.simps)

lemma bin_digits_One [simp]: "bin_digits (numeral Num.One) = ''1''"
  by (simp add: bin_digits.simps)

lemma bin_digits_Bit0 [simp]: "bin_digits (numeral (Num.Bit0 k)) = bin_digits (numeral k) @ ''0''"
  by (subst bin_digits.simps) (simp add: numeral_Bit0_div_2)

lemma bin_digits_Bit1 [simp]: "bin_digits (numeral (Num.Bit1 k)) = bin_digits (numeral k) @ ''1''"
  by (subst bin_digits.simps) (simp add: numeral_Bit1_div_2)

lemma dec_digits_small: "n < 10 \<Longrightarrow> dec_digits n = [''0123456789'' ! n]"
  by (simp add: dec_digits.simps)

lemma dec_digits_large:
  "10 \<le> n \<Longrightarrow> dec_digits n = dec_digits (n div 10) @ [''0123456789'' ! (n mod 10)]"
  by (subst dec_digits.simps) simp

lemma zfill_done: "w \<le> length s \<Longrightarrow> zfill w s = s"
  by (simp add: zfill_def)

lemma zfill_more: "length s < w \<Longrightarrow> zfill w s = zfill w (CHR ''0'' # s)"
  by (simp add: zfill_def Suc_diff_Suc replicate_app_Cons_same flip: replicate_Suc)

lemma registers_fresh: "replicate 4 (0::int) = [0, 0, 0, 0]"
  by (simp add: numeral_eq_Suc)

lemmas format_simps = fmt_bin_def zfill_done zfill_more str_int_def str_nat_def fmt_04d_def
  dec_digits_small dec_digits_large

lemmas machine_defs = step_def execute_def decode_def py_get_def py_set_def py_index_def int2_def
  bit_char_def dispatch_def immediate_def MODES_def op_not_def op_and_def op_or_def op_xor_def
  op_copy_def op_neg_def op_add_def op_sub_def op_mul_def op_div_def op_rem_def op_jmp_def
  unary_op_def binary_op_def getval_def setval_def fmt_bin_def zfill_done zfill_more
  registers_fresh advance_def cmp_def RAM_REGISTER_def RAM_SIZE_def MAX_ITERS_def Let_def
  py_floordiv_def py_mod_def

lemmas assembler_defs = assemble_def asm_copy_def asm_negate_def asm_negative_def
  asm_calculate_def asm_goto_def asm_conditional_def asm_label_def asm_jump_def
  unary_words_def registers_def MARKER_def startswith_def endswith_def immediate_word_def
  lookup_variable_def predefined_def predefined_variables_def op_cpy_code_def op_not_code_def
  op_neg_code_def op_jmp_code_def STATIC_def SCREEN_def KEYBOARD_def DISPLAY_def INPUT_def
  OUTPUT_def fmt_bin_def zfill_done zfill_more Let_def

lemmas parser_defs = assemble_lines_def parse_line_def parse_rhs_def parse_condition_def
  parse_comp_def keyword_def upper_char_def is_ws_def is_letter_def is_digit_def
  nat_of_dec_def digit_value_def

lemmas translator_defs = translate_def translate_from_def new_translator_def bootstrap_def
  tr_call_def tr_return_def tr_function_def tr_push_def tr_pop_def tr_operator_def
  tr_conditional_def tr_label_def tr_goto_def tr_ifgoto_def tr_output_def push_from_def
  pop_into_def in_BCD_def advance_A_def make_label_def comment_line_def center_def TMARKER_def
  operator_lookup_def opmap_def lookup_def

section \<open>A concrete run of assembler and simulator\<close>

text \<open>
  C7. The six lines \<open>@2\<close>, \<open>D=A\<close>, \<open>@3\<close>, \<open>D=D+A\<close>, \<open>@0\<close>, \<open>M=D\<close> assemble to six
  instruction words, and running them on a freshly loaded machine stops after six
  instructions with memory cell 0 holding 5.
\<close>

lemma six_lines_assemble:
  "assemble_lines [''@2'', ''D=A'', ''@3'', ''D=D+A'', ''@0'', ''M=D'']
   = Inr [''0000000000000010'', ''1100000000000010'', ''0000000000000011'',
          ''1101001100000010'', ''0000000000000000'', ''1100001100000001'']"
  by (simp add: parser_defs assembler_defs)

lemma six_words_run:
  "run (load [''0000000000000010'', ''1100000000000010'', ''0000000000000011'',
              ''1101001100000010'', ''0000000000000000'', ''1100001100000001''])
   = Inr \<lparr> register = [0, 0, 0, 5], counter = 6, ram = (replicate RAM_SIZE 0)[0 := 5],
           iters = 6, finished = True,
           program = [''0000000000000010'', ''1100000000000010'', ''0000000000000011'',
                      ''1101001100000010'', ''0000000000000000'', ''1100001100000001''] \<rparr>"
  by (simp add: run.simps load_def machine_defs)

theorem load_add_store_leaves_5:
  "ebind (assemble_lines [''@2'', ''D=A'', ''@3'', ''D=D+A'', ''@0'', ''M=D''])
     (\<lambda>binins. ebind (run (load binins)) (\<lambda>c. py_get (ram c) 0)) = Inr 5"
  by (simp add: six_lines_assemble six_words_run RAM_SIZE_def py_get_def py_index_def)

section \<open>The simulator: operations, jump, halting\<close>

lemma getval_iters [simp]: "getval (s\<lparr>iters := i\<rparr>) src = getval s src"
  by (simp add: getval_def cong del: ebind_cong)

lemma foldl_bits_nonneg:
  "0 \<le> acc \<Longrightarrow> 0 \<le> foldl (\<lambda>acc c. 2 * acc + (if c = CHR ''1'' then 1 else (0::int))) acc s"
  by (induction s arbitrary: acc) auto

lemma int2_nonneg: "int2 s = Inr v \<Longrightarrow> 0 \<le> v"
  by (auto simp: int2_def foldl_bits_nonneg split: if_splits)

lemma run_finished: "finished s \<Longrightarrow> run s = Inr s"
  by (simp add: run.simps [of s])

lemma run_step: "\<not> finished s \<Longrightarrow> step s = Inr (b, s') \<Longrightarrow> run s = run s'"
  by (simp add: run.simps [of s])

lemma run_error: "\<not> finished s \<Longrightarrow> step s = Inl e \<Longrightarrow> run s = Inl e"
  by (simp add: run.simps [of s])

text \<open>
  C5. For the DIV and REM opcodes (13 and 14 of the opcode table) and operands \<open>a\<close> and
  \<open>b\<close> with \<open>b\<close> not zero, the value written is the floor of the quotient \<open>a / b\<close>, the
  largest integer not above it, for DIV, and \<open>a\<close> minus \<open>b\<close> times that floor for REM.
\<close>

theorem div_rem_floor:
  assumes "getval s arg1 = Inr a" and "getval s arg2 = Inr b" and "b \<noteq> 0"
  shows "MODES 13 = Some op_div \<and> MODES 14 = Some op_rem
    \<and> op_div s arg1 arg2 res
        = ebind (setval s res \<lfloor>real_of_int a / real_of_int b\<rfloor>) (\<lambda>s'. Inr (s', - 1))
    \<and> op_rem s arg1 arg2 res
        = ebind (setval s res (a - b * \<lfloor>real_of_int a / real_of_int b\<rfloor>)) (\<lambda>s'. Inr (s', - 1))"
proof -
  have q: "\<lfloor>real_of_int a / real_of_int b\<rfloor> = a div b"
    by (rule floor_divide_of_int_eq)
  have r: "a - b * (a div b) = a mod b"
    by (simp add: minus_mult_div_eq_mod)
  show ?thesis
    using assms
    by (simp add: MODES_def op_div_def op_rem_def binary_op_def py_floordiv_def py_mod_def q r)
qed

text \<open>At \<open>a = -7\<close>, \<open>b = 2\<close>: the quotient is \<open>-4\<close> and the remainder \<open>1\<close>.\<close>

theorem div_rem_floor_witness:
  "getval ((load [])\<lparr>register := [- 7, 2, 0, 0]\<rparr>) 0 = Inr (- 7)
   \<and> getval ((load [])\<lparr>register := [- 7, 2, 0, 0]\<rparr>) 1 = Inr 2 \<and> (2::int) \<noteq> 0
   \<and> op_div ((load [])\<lparr>register := [- 7, 2, 0, 0]\<rparr>) 0 1 2
       = Inr ((load [])\<lparr>register := [- 7, 2, 0, - 4]\<rparr>, - 1)
   \<and> op_rem ((load [])\<lparr>register := [- 7, 2, 0, 0]\<rparr>) 0 1 2
       = Inr ((load [])\<lparr>register := [- 7, 2, 0, 1]\<rparr>, - 1)"
proof -
  have g: "getval ((load [])\<lparr>register := [- 7, 2, 0, 0]\<rparr>) 0 = Inr (- 7)"
    "getval ((load [])\<lparr>register := [- 7, 2, 0, 0]\<rparr>) 1 = Inr 2"
    by (simp_all add: load_def machine_defs)
  show ?thesis
    using div_rem_floor [OF g, of 2] g
    by (simp add: load_def machine_defs)
qed

text \<open>
  C9. Registers and memory cells hold unbounded integers: with registers \<open>a, b, c, d\<close>,
  logical-not of the constant 0 stores \<open>-1\<close>, negate stores \<open>-b\<close>, subtract \<open>b - c\<close>, add
  \<open>b + c\<close> and multiply \<open>b * c\<close>, each as the integer it is; any value \<open>v\<close> is stored as
  \<open>v\<close>; a later operand read returns the stored value, a comparison sees its sign
  (\<open>D < 0\<close> holds for a negative \<open>d\<close>), and the address of \<open>M\<close> is the value of A as it
  is, indexed as Python indexes a list.
\<close>

theorem unbounded_values:
  assumes "register s = [a, b, c, d]"
  shows "op_not s 4 arg2 2 = Inr (s\<lparr>register := [a, b, c, - 1]\<rparr>, - 1)
    \<and> op_neg s 1 arg2 2 = Inr (s\<lparr>register := [a, b, c, - b]\<rparr>, - 1)
    \<and> op_sub s 1 2 2 = Inr (s\<lparr>register := [a, b, c, b - c]\<rparr>, - 1)
    \<and> op_add s 1 2 2 = Inr (s\<lparr>register := [a, b, c, b + c]\<rparr>, - 1)
    \<and> op_mul s 1 2 2 = Inr (s\<lparr>register := [a, b, c, b * c]\<rparr>, - 1)
    \<and> setval s 2 v = Inr (s\<lparr>register := [a, b, c, v]\<rparr>)
    \<and> getval s 3 = Inr d
    \<and> op_jmp s 3 4 2 = Inr (s, if d < 0 then a else - 1)
    \<and> getval s 7 = (case py_index (length (ram s)) a of
                       None \<Rightarrow> Inl IndexError | Some k \<Rightarrow> Inr (ram s ! k))"
  using assms
  by (simp add: op_not_def op_neg_def op_sub_def op_add_def op_mul_def op_jmp_def unary_op_def
      binary_op_def getval_def setval_def fmt_bin_def zfill_done zfill_more py_get_def
      py_set_def py_index_def RAM_REGISTER_def cmp_def Let_def split: option.splits)

theorem unbounded_values_witness:
  "register ((load [])\<lparr>register := [- 1, 300, 301, - 5]\<rparr>) = [- 1, 300, 301, - 5]
   \<and> op_not ((load [])\<lparr>register := [- 1, 300, 301, - 5]\<rparr>) 4 0 2
       = Inr ((load [])\<lparr>register := [- 1, 300, 301, - 1]\<rparr>, - 1)
   \<and> op_sub ((load [])\<lparr>register := [- 1, 300, 301, - 5]\<rparr>) 1 2 2
       = Inr ((load [])\<lparr>register := [- 1, 300, 301, - 1]\<rparr>, - 1)
   \<and> op_mul ((load [])\<lparr>register := [- 1, 300, 301, - 5]\<rparr>) 1 2 2
       = Inr ((load [])\<lparr>register := [- 1, 300, 301, 90300]\<rparr>, - 1)
   \<and> op_jmp ((load [])\<lparr>register := [- 1, 300, 301, - 5]\<rparr>) 3 4 2
       = Inr ((load [])\<lparr>register := [- 1, 300, 301, - 5]\<rparr>, - 1)
   \<and> getval ((load [])\<lparr>register := [- 1, 300, 301, - 5]\<rparr>) 7
       = Inr (ram (load []) ! 24575)"
  using unbounded_values [of "(load [])\<lparr>register := [- 1, 300, 301, - 5]\<rparr>" "- 1" 300 301 "- 5" 0 0]
  by (simp add: load_def py_index_def RAM_SIZE_def)

text \<open>
  C10. When the result mask selects both A and M (a mask from 16 to 31 that is odd), the
  memory cell is written first, at the address register A held before the instruction,
  and then the registers: A receives the value, and B, C, D receive it where their mask
  digit is set.
\<close>

lemma mask_A_and_M:
  "16 \<le> dst \<Longrightarrow> dst < 32 \<Longrightarrow> odd dst \<Longrightarrow> dst \<in> {17, 19, 21, 23, 25, 27, 29, 31 :: int}"
proof -
  assume "16 \<le> dst" "dst < 32" "odd dst"
  then have "dst = 17 \<or> dst = 19 \<or> dst = 21 \<or> dst = 23 \<or> dst = 25 \<or> dst = 27
      \<or> dst = 29 \<or> dst = 31"
    by presburger
  then show ?thesis by auto
qed

theorem setval_memory_first:
  assumes "register s = [a, b, c, d]"
    and "py_index (length (ram s)) a = Some k"
    and "16 \<le> dst" and "dst < 32" and "odd dst"
  shows "setval s dst v
    = Inr (s\<lparr>ram := (ram s)[k := v],
             register := [v, if bit dst 3 then v else b, if bit dst 2 then v else c,
                          if bit dst 1 then v else d]\<rparr>)"
proof -
  have "dst \<in> {17, 19, 21, 23, 25, 27, 29, 31}"
    using assms(3-5) by (rule mask_A_and_M)
  then show ?thesis
    using assms(1,2)
    by (auto simp: setval_def Let_def fmt_bin_def zfill_done zfill_more py_get_def py_set_def
        py_index_def RAM_REGISTER_def bit_numeral_Bit0_iff)
qed

text \<open>
  \<open>AM=M+1\<close> assembles to a word with mask 17; with A = 0 and cell 0 holding 256, the
  computed 257 goes to cell 0 and to A.
\<close>

theorem setval_memory_first_witness:
  "register ((load [])\<lparr>register := [0, 0, 0, 0], ram := (replicate RAM_SIZE 0)[0 := 256]\<rparr>)
     = [0, 0, 0, 0]
   \<and> py_index (length (ram ((load [])\<lparr>register := [0, 0, 0, 0],
          ram := (replicate RAM_SIZE 0)[0 := 256]\<rparr>))) 0 = Some 0
   \<and> (16::int) \<le> 17 \<and> (17::int) < 32 \<and> odd (17::int)
   \<and> asm_calculate [RegA, RegM] (Register RegM) Add One = [''1101011110110001'']
   \<and> decode ''1101011110110001'' = Inr (1, 10, 7, 5, 17)
   \<and> setval ((load [])\<lparr>register := [0, 0, 0, 0], ram := (replicate RAM_SIZE 0)[0 := 256]\<rparr>)
         17 257
       = Inr ((load [])\<lparr>register := [257, 0, 0, 0], ram := (replicate RAM_SIZE 0)[0 := 257]\<rparr>)"
  using setval_memory_first [of "(load [])\<lparr>register := [0, 0, 0, 0],
      ram := (replicate RAM_SIZE 0)[0 := 256]\<rparr>" 0 0 0 0 0 17 257]
  by (simp add: load_def py_index_def RAM_SIZE_def decode_def int2_def bit_char_def py_get_def
      assembler_defs)

text \<open>
  C1, as the claim states it, fails. The program \<open>@2\<close>, \<open>B=A\<close>, \<open>@9\<close> and an
  unconditional JMP whose operand-A selector names B reaches the JMP with A = 9 and
  B = 2: operand A's value is 2, and the program counter becomes 9, the value of A.
\<close>

theorem jump_target_counterexample:
  "decode (jump_to_A ! 3) = Inr (1, 15, 1, 0, 4)
   \<and> getval \<lparr> register = [9, 2, 0, 0], counter = 3, ram = replicate RAM_SIZE 0, iters = 3,
               finished = False, program = jump_to_A \<rparr> 1 = Inr 2
   \<and> cmp 2 9 4 = Inr True
   \<and> step \<lparr> register = [9, 2, 0, 0], counter = 3, ram = replicate RAM_SIZE 0, iters = 3,
             finished = False, program = jump_to_A \<rparr>
       = Inr (True, \<lparr> register = [9, 2, 0, 0], counter = 9, ram = replicate RAM_SIZE 0,
                      iters = 4, finished = False, program = jump_to_A \<rparr>)
   \<and> run (load jump_to_A)
       = Inr \<lparr> register = [9, 2, 0, 0], counter = 9, ram = replicate RAM_SIZE 0,
                iters = 4, finished = True, program = jump_to_A \<rparr>"
  by (simp add: jump_to_A_def run.simps load_def machine_defs)

text \<open>
  C1, amended. For an Operation instruction with the JMP opcode whose mask field is a
  comparison code (below 8), \<open>step\<close> compares operand A with operand B by that code, and
  when the comparison holds it sets the program counter to the value of register A (a
  value that is not negative), whatever the operand-A selector names; otherwise it
  advances the program counter by one.
\<close>

theorem jmp_compares_and_jumps_to_A:
  assumes "\<not> finished s" and "0 \<le> counter s" and "counter s < int (length (program s))"
    and "iters s < MAX_ITERS"
    and "decode (program s ! nat (counter s)) = Inr (1, 15, arg1, arg2, res)"
    and "res < 8"
    and "getval s arg1 = Inr x" and "getval s arg2 = Inr y" and "getval s 0 = Inr target"
    and "0 \<le> target"
  shows "cmp x y res
      = Inr (res = 4 \<or> res = 1 \<and> x = y \<or> res = 2 \<and> x < y \<or> res = 3 \<and> x \<le> y
             \<or> res = 5 \<and> x \<noteq> y \<or> res = 6 \<and> x \<ge> y \<or> res = 7 \<and> x > y)
    \<and> step s = Inr (True, s\<lparr>iters := iters s + 1,
          counter := (if cmp x y res = Inr True then target else counter s + 1)\<rparr>)"
proof -
  from assms(5) have "0 \<le> res"
    by (auto simp: decode_def ebind_eq_Inr dest: int2_nonneg)
  with assms(6) have "res \<in> {0, 1, 2, 3, 4, 5, 6, 7}"
    by auto
  then have c: "cmp x y res
      = Inr (res = 4 \<or> res = 1 \<and> x = y \<or> res = 2 \<and> x < y \<or> res = 3 \<and> x \<le> y
             \<or> res = 5 \<and> x \<noteq> y \<or> res = 6 \<and> x \<ge> y \<or> res = 7 \<and> x > y)"
    by (auto simp: cmp_def)
  have fetch: "py_get (program s) (counter s) = Inr (program s ! nat (counter s))"
    using assms(2,3) by (simp add: py_get_def py_index_def)
  have "step s = execute s"
    using assms(1,3,4) by (simp add: step_def)
  also have "\<dots> = Inr (True, s\<lparr>iters := iters s + 1,
          counter := (if cmp x y res = Inr True then target else counter s + 1)\<rparr>)"
    using assms(5,7-10) fetch
    by (simp add: execute_def Let_def dispatch_def MODES_def op_jmp_def c advance_def)
  finally show ?thesis using c by simp
qed

theorem jmp_compares_and_jumps_to_A_witness:
  "\<not> finished \<lparr> register = [9, 2, 0, 0], counter = 3, ram = replicate RAM_SIZE 0, iters = 3,
                  finished = False, program = jump_to_A \<rparr>
   \<and> decode (jump_to_A ! nat 3) = Inr (1, 15, 1, 0, 4) \<and> (4::int) < 8 \<and> (0::int) \<le> 9
   \<and> getval \<lparr> register = [9, 2, 0, 0], counter = 3, ram = replicate RAM_SIZE 0, iters = 3,
              finished = False, program = jump_to_A \<rparr> 1 = Inr 2
   \<and> getval \<lparr> register = [9, 2, 0, 0], counter = 3, ram = replicate RAM_SIZE 0, iters = 3,
              finished = False, program = jump_to_A \<rparr> 0 = Inr 9
   \<and> step \<lparr> register = [9, 2, 0, 0], counter = 3, ram = replicate RAM_SIZE 0, iters = 3,
            finished = False, program = jump_to_A \<rparr>
       = Inr (True, \<lparr> register = [9, 2, 0, 0], counter = 9, ram = replicate RAM_SIZE 0,
                      iters = 4, finished = False, program = jump_to_A \<rparr>)"
  using jmp_compares_and_jumps_to_A [of "\<lparr> register = [9, 2, 0, 0], counter = 3,
      ram = replicate RAM_SIZE 0, iters = 3, finished = False, program = jump_to_A \<rparr>"
      1 0 4 2 9 9]
  by (simp add: jump_to_A_def getval_def py_get_def py_index_def decode_def int2_def bit_char_def
      MAX_ITERS_def cmp_def)

lemma step_iters:
  assumes "step s = Inr (b, s')" and "\<not> finished s"
  shows "program s' = program s
    \<and> (finished s' \<and> iters s' = iters s \<or> iters s' = iters s + 1 \<and> iters s < MAX_ITERS)"
  using assms by (auto simp: step_def split: if_splits dest: execute_frame)

lemma run_finishes:
  "case run s of Inl e \<Rightarrow> True
   | Inr s' \<Rightarrow> finished s' \<and> program s' = program s \<and> iters s' \<le> max (iters s) MAX_ITERS"
proof (induction s rule: run.induct)
  case (1 s)
  show ?case
  proof (cases "finished s")
    case True
    then show ?thesis by (simp add: run_finished)
  next
    case False
    show ?thesis
    proof (cases "step s")
      case (Inl e)
      with False show ?thesis by (simp add: run_error)
    next
      case (Inr r)
      obtain b s1 where r: "r = (b, s1)" by (cases r)
      from Inr r False have eq: "run s = run s1"
        by (simp add: run_step)
      from "1.IH" [OF False Inr r [symmetric]]
      have ih: "case run s1 of Inl e \<Rightarrow> True
        | Inr s' \<Rightarrow> finished s' \<and> program s' = program s1 \<and> iters s' \<le> max (iters s1) MAX_ITERS" .
      from step_iters [of s b s1] Inr r False
      have "program s1 = program s" and "iters s1 \<le> max (iters s) MAX_ITERS"
        by auto
      with ih show ?thesis
        unfolding eq by (auto split: sum.splits)
    qed
  qed
qed

lemma self_loop_step:
  "i < MAX_ITERS \<Longrightarrow> step ((load self_loop)\<lparr>iters := i\<rparr>) = Inr (True, (load self_loop)\<lparr>iters := i + 1\<rparr>)"
  by (simp add: self_loop_def load_def machine_defs)

lemma self_loop_run_from:
  "k \<le> 16384 \<Longrightarrow> run ((load self_loop)\<lparr>iters := MAX_ITERS - int k\<rparr>)
     = Inr ((load self_loop)\<lparr>iters := MAX_ITERS, finished := True\<rparr>)"
proof (induction k)
  case 0
  have st: "step ((load self_loop)\<lparr>iters := MAX_ITERS\<rparr>)
      = Inr (False, (load self_loop)\<lparr>iters := MAX_ITERS, finished := True\<rparr>)"
    by (simp add: step_def load_def self_loop_def)
  have nf: "\<not> finished ((load self_loop)\<lparr>iters := MAX_ITERS\<rparr>)"
    by (simp add: load_def)
  show ?case
    using run_step [OF nf st] by (simp add: run_finished)
next
  case (Suc k)
  have st: "step ((load self_loop)\<lparr>iters := MAX_ITERS - int (Suc k)\<rparr>)
      = Inr (True, (load self_loop)\<lparr>iters := MAX_ITERS - int (Suc k) + 1\<rparr>)"
    by (rule self_loop_step) simp
  have nf: "\<not> finished ((load self_loop)\<lparr>iters := MAX_ITERS - int (Suc k)\<rparr>)"
    by (simp add: load_def)
  have "MAX_ITERS - int (Suc k) + 1 = MAX_ITERS - int k" by simp
  with run_step [OF nf st] Suc show ?case
    by simp
qed

text \<open>
  C3. Once the program counter is past the end of the program, or 16384 instructions have
  been executed, \<open>step\<close> returns False without an error and without executing anything:
  the state is unchanged but for the finished flag. \<open>run\<close> is a total function (its
  termination proof counts the instructions left below the bound): it ends in an
  exception or in a finished state whose instruction count is at most the bound (or the
  count it started with). The program that is one unconditional jump to address 0 is
  stopped with exactly 16384 instructions executed.
\<close>

theorem step_halts_run_terminates:
  "(int (length (program s)) \<le> counter s \<or> MAX_ITERS \<le> iters s
      \<longrightarrow> step s = Inr (False, if finished s then s else s\<lparr>finished := True\<rparr>))
   \<and> (case run s of Inl e \<Rightarrow> True
       | Inr s' \<Rightarrow> finished s' \<and> program s' = program s \<and> iters s' \<le> max (iters s) MAX_ITERS)
   \<and> MAX_ITERS = 16384
   \<and> run (load self_loop) = Inr ((load self_loop)\<lparr>iters := 16384, finished := True\<rparr>)"
proof -
  have "run ((load self_loop)\<lparr>iters := MAX_ITERS - int 16384\<rparr>)
      = Inr ((load self_loop)\<lparr>iters := MAX_ITERS, finished := True\<rparr>)"
    by (rule self_loop_run_from) simp
  then have "run (load self_loop) = Inr ((load self_loop)\<lparr>iters := 16384, finished := True\<rparr>)"
    by (simp add: MAX_ITERS_def load_def)
  then show ?thesis
    using run_finishes [of s] by (auto simp: step_def MAX_ITERS_def)
qed

theorem step_halts_run_terminates_witness:
  "int (length (program (load []))) \<le> counter (load [])
   \<and> step (load []) = Inr (False, (load [])\<lparr>finished := True\<rparr>)
   \<and> run (load []) = Inr ((load [])\<lparr>finished := True\<rparr>)"
proof -
  have nf: "\<not> finished (load [])" by (simp add: load_def)
  have st: "step (load []) = Inr (False, (load [])\<lparr>finished := True\<rparr>)"
    using step_halts_run_terminates [of "load []"] by (simp add: load_def)
  show ?thesis
    using st run_step [OF nf st] by (simp add: run_finished load_def)
qed

section \<open>The assembler: duplicate labels, disassembly\<close>

lemma first_pass_duplicate:
  assumes "\<not> distinct (defined_labels ptree) \<or> (\<exists>l \<in> set (defined_labels ptree). l \<in> dom labels)"
  shows "\<exists>l \<in> set (defined_labels ptree).
    first_pass labels ptree = Inl (RuntimeError (''Label '' @ l @ '' already defined''))"
  using assms
proof (induction labels ptree rule: first_pass.induct)
  case (1 labels)
  then show ?case by simp
next
  case (2 labels l rest)
  show ?case
  proof (cases "l \<in> dom labels")
    case True
    then show ?thesis by simp
  next
    case False
    with "2.prems" have "\<not> distinct (defined_labels rest)
        \<or> (\<exists>l' \<in> set (defined_labels rest). l' \<in> dom (labels(l \<mapsto> None)))"
      by auto
    from "2.IH" [OF False this] obtain l' where
      "l' \<in> set (defined_labels rest)"
      "first_pass (labels(l \<mapsto> None)) rest
       = Inl (RuntimeError (''Label '' @ l' @ '' already defined''))"
      by blast
    with False show ?thesis
      by (intro bexI [where x = l']) simp_all
  qed
qed auto

text \<open>
  C6. When a label name is defined by two label statements of the input, \<open>assemble\<close>
  fails with the error "Label ... already defined" for one of the defined names, and so
  returns no output sequence at all; the same holds for the lines that parse to that
  input.
\<close>

theorem duplicate_label_fails:
  assumes "\<not> distinct (defined_labels ptree)"
  shows "\<exists>l \<in> set (defined_labels ptree).
      assemble ptree = Inl (RuntimeError (''Label '' @ l @ '' already defined''))
      \<and> (\<forall>instructions. parse_lines instructions = Inr ptree \<longrightarrow>
           assemble_lines instructions = Inl (RuntimeError (''Label '' @ l @ '' already defined'')))"
proof -
  from first_pass_duplicate [of ptree Map.empty] assms obtain l where
    "l \<in> set (defined_labels ptree)"
    "first_pass Map.empty ptree = Inl (RuntimeError (''Label '' @ l @ '' already defined''))"
    by blast
  then show ?thesis
    by (auto simp: assemble_def assemble_lines_def)
qed

lemma loop_lines_parse:
  "parse_lines [''(LOOP)'', ''@1'', ''(LOOP)'']
   = Inr [Label ''LOOP'', Immediate (Number 1), Label ''LOOP'']"
  by (simp add: parser_defs)

theorem duplicate_label_fails_witness:
  "\<not> distinct (defined_labels [Label ''LOOP'', Immediate (Number 1), Label ''LOOP''])
   \<and> parse_lines [''(LOOP)'', ''@1'', ''(LOOP)'']
       = Inr [Label ''LOOP'', Immediate (Number 1), Label ''LOOP'']
   \<and> assemble_lines [''(LOOP)'', ''@1'', ''(LOOP)'']
       = Inl (RuntimeError ''Label LOOP already defined'')"
  using duplicate_label_fails [of "[Label ''LOOP'', Immediate (Number 1), Label ''LOOP'']"]
    loop_lines_parse
  by simp

lemma five_chars: "length bs = 5 \<Longrightarrow> \<exists>b0 b1 b2 b3 b4. bs = [b0, b1, b2, b3, b4 :: char]"
  by (auto simp: numeral_eq_Suc length_Suc_conv)

lemma foldl_mask:
  "length bs = 5 \<Longrightarrow>
   foldl (\<lambda>bits r. bits[reg_index r := CHR ''1'']) bs dst
   = map (\<lambda>r. if r \<in> set dst then CHR ''1'' else bs ! reg_index r) [RegA, RegB, RegC, RegD, RegM]"
proof (induction dst arbitrary: bs)
  case Nil
  then obtain b0 b1 b2 b3 b4 where "bs = [b0, b1, b2, b3, b4]"
    using five_chars by blast
  then show ?case by simp
next
  case (Cons a dst)
  then obtain b0 b1 b2 b3 b4 where bs: "bs = [b0, b1, b2, b3, b4]"
    using five_chars by blast
  have "length (bs[reg_index a := CHR ''1'']) = 5"
    using Cons.prems by simp
  from Cons.IH [OF this] show ?case
    by (cases a) (simp_all add: bs)
qed

lemma registers_eq:
  "registers dst
   = map (\<lambda>r. if r \<in> set dst then CHR ''1'' else CHR ''0'') [RegA, RegB, RegC, RegD, RegM]"
  by (simp add: registers_def foldl_mask)

lemma mask_digit_eq: "((if c then CHR ''1'' else CHR ''0'') = CHR ''1'') = c"
  by simp

lemma mask_letters:
  "map fst (filter (\<lambda>(a, i). i = CHR ''1'') (zip ''ABCDM'' (registers dst)))
   = map reg_letter (mask_order dst)"
  by (simp add: registers_eq mask_order_def mask_digit_eq)

lemmas disassemble_defs = disassemble_def lookup_def modes_def ops_def cmps_def unary_signs_def
  binary_signs_def py_get_def py_index_def Let_def

lemma operand_cases:
  obtains "x = Register RegA" | "x = Register RegB" | "x = Register RegC"
    | "x = Register RegD" | "x = Register RegM" | "x = Zero" | "x = One"
  by (cases x rule: operand_text.cases) (auto intro: reg.exhaust)

lemma disassemble_unary_word:
  "disassemble (''1'' @ op_cpy_code @ register_or_constant src @ ''000'' @ res)
      = Inr (map fst (filter (\<lambda>(a, i). i = CHR ''1'') (zip ''ABCDM'' res)) @ '' = ''
             @ operand_text src)"
  "disassemble (''1'' @ op_not_code @ register_or_constant src @ ''000'' @ res)
      = Inr (map fst (filter (\<lambda>(a, i). i = CHR ''1'') (zip ''ABCDM'' res)) @ '' = !''
             @ operand_text src)"
  "disassemble (''1'' @ op_neg_code @ register_or_constant src @ ''000'' @ res)
      = Inr (map fst (filter (\<lambda>(a, i). i = CHR ''1'') (zip ''ABCDM'' res)) @ '' = -''
             @ operand_text src)"
  by (cases src rule: operand_cases;
      simp add: disassemble_defs op_cpy_code_def op_not_code_def op_neg_code_def)+

lemma disassemble_binary_word:
  "disassemble (''1'' @ op_map opr @ register_or_constant x @ register_or_constant y @ res)
      = Inr (map fst (filter (\<lambda>(a, i). i = CHR ''1'') (zip ''ABCDM'' res)) @ '' = ''
             @ operand_text x @ '' '' @ operator_text opr @ '' '' @ operand_text y)"
  by (cases x rule: operand_cases; cases y rule: operand_cases; cases opr;
      simp add: disassemble_defs)

lemma disassemble_conditional_word:
  "disassemble (''11111'' @ register_or_constant x @ register_or_constant y @ ''00'' @ cmp_map c)
      = Inr (''JMP '' @ operand_text x @ '' '' @ comp_text c @ '' '' @ operand_text y)"
  by (cases x rule: operand_cases; cases y rule: operand_cases; cases c;
      simp add: disassemble_defs)

lemma disassemble_jump_word: "disassemble ''1111100000000100'' = Inr ''JMP''"
  by (simp add: disassemble_defs)

lemma selector_length: "length (register_or_constant x) = 3"
  by (cases x rule: operand_cases) simp_all

lemma bin_digits_bits: "bin_digits n \<noteq> [] \<and> list_all bit_char (bin_digits n)"
proof (induction n rule: bin_digits.induct)
  case (1 n)
  show ?case
  proof (cases "n < 2")
    case True
    then show ?thesis by (simp add: bin_digits.simps [of n] bit_char_def)
  next
    case False
    with "1.IH" show ?thesis by (simp add: bin_digits.simps [of n] bit_char_def)
  qed
qed

lemma bin_digits_value:
  "foldl (\<lambda>acc c. 2 * acc + (if c = CHR ''1'' then 1 else 0)) 0 (bin_digits n) = int n"
proof (induction n rule: bin_digits.induct)
  case (1 n)
  show ?case
  proof (cases "n < 2")
    case True
    then have "n = 0 \<or> n = 1" by auto
    then show ?thesis by (auto simp: bin_digits.simps [of n])
  next
    case False
    with "1.IH" show ?thesis
      by (simp add: bin_digits.simps [of n]) presburger
  qed
qed

lemma leading_zeros_value:
  "foldl (\<lambda>acc c. 2 * acc + (if c = CHR ''1'' then 1 else 0)) (0::int) (replicate k CHR ''0'' @ s)
   = foldl (\<lambda>acc c. 2 * acc + (if c = CHR ''1'' then 1 else 0)) 0 s"
  by (induction k) simp_all

lemma int2_fmt_bin:
  assumes "0 \<le> v"
  shows "int2 (fmt_bin w v) = Inr v"
proof -
  define k where "k = w - length (bin_digits (nat v))"
  have fmt: "fmt_bin w v = replicate k CHR ''0'' @ bin_digits (nat v)"
    using assms by (simp add: fmt_bin_def zfill_def k_def)
  have "list_all bit_char (replicate k CHR ''0'')"
    by (induction k) (simp_all add: bit_char_def)
  then have "list_all bit_char (replicate k CHR ''0'' @ bin_digits (nat v))"
    using bin_digits_bits [of "nat v"] by simp
  moreover have "replicate k CHR ''0'' @ bin_digits (nat v) \<noteq> []"
    using bin_digits_bits [of "nat v"] by simp
  ultimately show ?thesis
    using assms unfolding fmt int2_def
    by (simp only: leading_zeros_value bin_digits_value) simp
qed

lemma disassemble_immediate_word:
  "0 \<le> v \<Longrightarrow> disassemble (immediate_word v) = Inr (''@'' @ str_int v)"
  by (simp add: disassemble_def immediate_word_def py_get_def py_index_def int2_fmt_bin)

text \<open>
  C8, as the claim states it, fails. \<open>MD=A\<close> is a statement of the grammar; its word
  disassembles to \<open>DM = A\<close>, which differs from it by more than white space: the two
  lines are different statements.
\<close>

theorem roundtrip_counterexample:
  "parse_line ''MD=A'' = Inr (Some (Copy [RegM, RegD] (Register RegA)))
   \<and> asm_copy [RegM, RegD] (Register RegA) = [''1100000000000011'']
   \<and> disassemble ''1100000000000011'' = Inr ''DM = A''
   \<and> filter (\<lambda>c. \<not> is_ws c) ''DM = A'' \<noteq> ''MD=A''
   \<and> parse_line ''DM = A'' = Inr (Some (Copy [RegD, RegM] (Register RegA)))"
  by (simp add: parser_defs assembler_defs disassemble_defs)

text \<open>
  C8, amended. The word that encodes a single statement disassembles to the original
  symbolic form up to comments and white space, with the destination registers listed
  once each in the order A, B, C, D, M: a copy, negate, negative or calculate statement
  comes back as the destinations, \<open>=\<close> and the expression; the operation word of a
  conditional as \<open>JMP\<close>, operand, comparison, operand; the operation word of \<open>GOTO\<close>
  and of \<open>JUMP\<close> as \<open>JMP\<close>; an immediate number as \<open>@\<close> and the number.
\<close>

theorem disassemble_roundtrip:
  "map disassemble (asm_copy dst src)
     = [Inr (map reg_letter (mask_order dst) @ '' = '' @ operand_text src)]
   \<and> map disassemble (asm_negate dst src)
     = [Inr (map reg_letter (mask_order dst) @ '' = !'' @ operand_text src)]
   \<and> map disassemble (asm_negative dst src)
     = [Inr (map reg_letter (mask_order dst) @ '' = -'' @ operand_text src)]
   \<and> map disassemble (asm_calculate dst x opr y)
     = [Inr (map reg_letter (mask_order dst) @ '' = '' @ operand_text x @ '' ''
             @ operator_text opr @ '' '' @ operand_text y)]
   \<and> map disassemble (tl (asm_conditional x c y l))
     = [Inr (''JMP '' @ operand_text x @ '' '' @ comp_text c @ '' '' @ operand_text y)]
   \<and> map disassemble (tl (asm_goto l)) = [Inr ''JMP'']
   \<and> map disassemble asm_jump = [Inr ''JMP'']
   \<and> map disassemble (snd (asm_immediate labels vars (Number n)))
     = [Inr (''@'' @ str_int (int n))]"
proof -
  have unary: "unary_words opc dst src
      = [''1'' @ opc @ register_or_constant src @ ''000'' @ registers dst]" for opc
    by (simp add: unary_words_def selector_length Let_def del: register_or_constant.simps)
  have calc: "asm_calculate dst x opr y
      = [''1'' @ op_map opr @ register_or_constant x @ register_or_constant y @ registers dst]"
    by (simp add: asm_calculate_def selector_length Let_def
        del: register_or_constant.simps op_map.simps)
  have cond: "tl (asm_conditional x c y l)
      = [''11111'' @ register_or_constant x @ register_or_constant y @ ''00'' @ cmp_map c]"
    by (simp add: asm_conditional_def)
  have goto: "tl (asm_goto l) = [''1111100000000100'']"
    by (simp add: asm_goto_def)
  have imm: "snd (asm_immediate labels vars (Number n)) = [immediate_word (int n)]"
    by simp
  have "map disassemble (asm_copy dst src)
      = [Inr (map reg_letter (mask_order dst) @ '' = '' @ operand_text src)]"
    by (simp only: asm_copy_def unary list.map disassemble_unary_word mask_letters)
  moreover have "map disassemble (asm_negate dst src)
      = [Inr (map reg_letter (mask_order dst) @ '' = !'' @ operand_text src)]"
    by (simp only: asm_negate_def unary list.map disassemble_unary_word mask_letters)
  moreover have "map disassemble (asm_negative dst src)
      = [Inr (map reg_letter (mask_order dst) @ '' = -'' @ operand_text src)]"
    by (simp only: asm_negative_def unary list.map disassemble_unary_word mask_letters)
  moreover have "map disassemble (asm_calculate dst x opr y)
      = [Inr (map reg_letter (mask_order dst) @ '' = '' @ operand_text x @ '' ''
              @ operator_text opr @ '' '' @ operand_text y)]"
    by (simp only: calc list.map disassemble_binary_word mask_letters)
  moreover have "map disassemble (tl (asm_conditional x c y l))
      = [Inr (''JMP '' @ operand_text x @ '' '' @ comp_text c @ '' '' @ operand_text y)]"
    by (simp only: cond list.map disassemble_conditional_word)
  moreover have "map disassemble (tl (asm_goto l)) = [Inr ''JMP'']"
    by (simp only: goto list.map disassemble_jump_word)
  moreover have "map disassemble asm_jump = [Inr ''JMP'']"
    by (simp only: asm_jump_def list.map disassemble_jump_word)
  moreover have "map disassemble (snd (asm_immediate labels vars (Number n)))
      = [Inr (''@'' @ str_int (int n))]"
    by (simp only: imm list.map disassemble_immediate_word of_nat_0_le_iff)
  ultimately show ?thesis by blast
qed

end
